theory Spec2Isabelle
  imports Main
begin

section \<open>Data model of the dispatch engine\<close>

text \<open>
  The engine is the current revision of the library's single source file (the last of the
  revisions kept in \<^verbatim>\<open>src/unnamed/part_000\<close>, the one the README documents). Payloads
  are typed \<^verbatim>\<open>any\<close> there; here \<open>'c\<close> is the type of command data, \<open>'d\<close> of event
  data, \<open>'s\<close> of the state (\<open>None\<close> is \<^verbatim>\<open>null\<close>) and \<open>'x\<close> of the values a registered
  function may throw. The file \<^verbatim>\<open>src/src/index.ts\<close> is an earlier revision of the same
  module: there upcasters are keyed by event type alone, materialized events have a
  \<^verbatim>\<open>timestamp\<close> and no \<^verbatim>\<open>specversion\<close>, and \<^verbatim>\<open>handleCommand\<close> has no return statement.
\<close>

record 'c Command =
  cmd_type :: string
  cmd_subjects :: "string list"
  cmd_data :: 'c

text \<open>
  \<^verbatim>\<open>interface CloudEvent<T>\<close>: the optional attributes are options, the index signature
  \<^verbatim>\<open>[key: string]: unknown\<close> is the list of extension attributes.
\<close>

record 'd CloudEvent =
  ce_id :: "string option"
  ce_source :: "string option"
  ce_type :: string
  ce_specversion :: "string option"
  ce_datacontenttype :: "string option"
  ce_dataschema :: "string option"
  ce_subject :: string
  ce_time :: "string option"
  ce_data :: 'd
  ce_extensions :: "(string \<times> string) list"

record ('c, 'd, 's, 'x) CommandHandler =
  ch_handle :: "'c \<Rightarrow> 's option \<Rightarrow> 'x + 'd CloudEvent list"
  ch_context :: string
  ch_type :: string

record ('d, 's, 'x) StateRebuilder =
  sr_stateRebuilder :: "'d \<Rightarrow> 's option \<Rightarrow> 'x + 's option"
  sr_context :: string
  sr_type :: string

record ('d, 's, 'x) EventHandler =
  eh_eventHandler :: "'d CloudEvent \<Rightarrow> 's option \<Rightarrow> 'x + unit"
  eh_type :: string

record ('d, 'x) UpCasthandler =
  uc_upcast :: "'d CloudEvent \<Rightarrow> 'x + 'd CloudEvent"
  uc_type :: string
  uc_context :: string

record ('d, 'x) StateLoaderFunction =
  sl_load :: "string list \<Rightarrow> 'x + 'd CloudEvent list"
  sl_context :: string

text \<open>
  The module-level variables: \<^verbatim>\<open>source\<close> and the five \<^verbatim>\<open>Map\<close>s. Every function below
  that reads them takes the registry, every function that writes them returns it.
\<close>

record ('c, 'd, 's, 'x) registry =
  source :: string
  commands :: "string \<rightharpoonup> ('c, 'd, 's, 'x) CommandHandler"
  stateRebuilder :: "string \<rightharpoonup> ('d, 's, 'x) StateRebuilder"
  eventHandler :: "string \<rightharpoonup> ('d, 's, 'x) EventHandler list"
  upcastHandler :: "string \<rightharpoonup> ('d, 'x) UpCasthandler"
  stateLoader :: "string \<rightharpoonup> ('d, 'x) StateLoaderFunction"

definition initial :: "('c, 'd, 's, 'x) registry" where
  "initial = \<lparr>source = ''CQRS_DEFAULTSOURCE'', commands = Map.empty,
     stateRebuilder = Map.empty, eventHandler = Map.empty, upcastHandler = Map.empty,
     stateLoader = Map.empty\<rparr>"

text \<open>\<^verbatim>\<open>throw new Error(message)\<close> of the registration functions.\<close>

datatype error = Error string

section \<open>Registration\<close>

definition createKey :: "string \<Rightarrow> string \<Rightarrow> string" where
  "createKey context type = ''['' @ context @ ''|'' @ type @ '']''"

definition setSource :: "string \<Rightarrow> ('c, 'd, 's, 'x) registry \<Rightarrow> ('c, 'd, 's, 'x) registry" where
  "setSource src reg = reg\<lparr>source := src\<rparr>"

text \<open>
  A registration function returns what the call did (\<open>Inl\<close> the error thrown, \<open>Inr ()\<close> a
  normal return) together with the registry as the call leaves it.
\<close>

definition registerUpcaster ::
  "string \<Rightarrow> string \<Rightarrow> ('d CloudEvent \<Rightarrow> 'x + 'd CloudEvent) \<Rightarrow> ('c, 'd, 's, 'x) registry
     \<Rightarrow> (error + unit) \<times> ('c, 'd, 's, 'x) registry" where
  "registerUpcaster type context func reg =
     (let key = createKey context type in
      if key \<in> dom (upcastHandler reg)
      then (Inl (Error (''upcaster for '' @ key @ '' already exists'')), reg)
      else (Inr (), reg\<lparr>upcastHandler := (upcastHandler reg)
              (key \<mapsto> \<lparr>uc_upcast = func, uc_type = type, uc_context = context\<rparr>)\<rparr>))"

definition registerEventhandler ::
  "string \<Rightarrow> ('d CloudEvent \<Rightarrow> 's option \<Rightarrow> 'x + unit) \<Rightarrow> ('c, 'd, 's, 'x) registry
     \<Rightarrow> ('c, 'd, 's, 'x) registry" where
  "registerEventhandler type func reg =
     (let reg1 = (if type \<notin> dom (eventHandler reg)
                  then reg\<lparr>eventHandler := (eventHandler reg)(type \<mapsto> [])\<rparr> else reg)
      in reg1\<lparr>eventHandler := (eventHandler reg1)
           (type \<mapsto> the (eventHandler reg1 type) @ [\<lparr>eh_eventHandler = func, eh_type = type\<rparr>])\<rparr>)"

definition registerStateLoadingFunction ::
  "string \<Rightarrow> (string list \<Rightarrow> 'x + 'd CloudEvent list) \<Rightarrow> ('c, 'd, 's, 'x) registry
     \<Rightarrow> ('c, 'd, 's, 'x) registry" where
  "registerStateLoadingFunction context load reg =
     reg\<lparr>stateLoader := (stateLoader reg)(context \<mapsto> \<lparr>sl_load = load, sl_context = context\<rparr>)\<rparr>"

definition registerCommandHandler ::
  "string \<Rightarrow> string \<Rightarrow> ('c \<Rightarrow> 's option \<Rightarrow> 'x + 'd CloudEvent list) \<Rightarrow> ('c, 'd, 's, 'x) registry
     \<Rightarrow> (error + unit) \<times> ('c, 'd, 's, 'x) registry" where
  "registerCommandHandler type context commandHandler reg =
     (if type \<in> dom (commands reg)
      then (Inl (Error (''Command handler for '' @ type @ '' already exists'')), reg)
      else (Inr (), reg\<lparr>commands := (commands reg)
              (type \<mapsto> \<lparr>ch_handle = commandHandler, ch_context = context, ch_type = type\<rparr>)\<rparr>))"

definition registerStateRebuilder ::
  "string \<Rightarrow> string \<Rightarrow> ('d \<Rightarrow> 's option \<Rightarrow> 'x + 's option) \<Rightarrow> ('c, 'd, 's, 'x) registry
     \<Rightarrow> (error + unit) \<times> ('c, 'd, 's, 'x) registry" where
  "registerStateRebuilder type context builderHandler reg =
     (let key = createKey context type in
      if key \<in> dom (stateRebuilder reg)
      then (Inl (Error (''State rebuilder for '' @ key @ '' already exists'')), reg)
      else (Inr (), reg\<lparr>stateRebuilder := (stateRebuilder reg)
              (key \<mapsto> \<lparr>sr_stateRebuilder = builderHandler, sr_context = context,
                        sr_type = type\<rparr>)\<rparr>))"

section \<open>Dispatch\<close>

text \<open>
  The engine calls functions it does not define: the registered loader, upcasters,
  rebuilders, command handler and event handlers, and the runtime's \<^verbatim>\<open>randomUUID()\<close>
  and \<^verbatim>\<open>new Date()\<close>. A run of the engine yields the list of these calls, in the order
  they are made, beside its outcome: \<open>Inl x\<close> when a called function threw \<open>x\<close> (or the
  loader's promise rejected with it), which the engine never catches, \<open>Inr v\<close> when the
  run returned \<open>v\<close>. A call is named by the \<^verbatim>\<open>type\<close> and \<^verbatim>\<open>context\<close> fields stored with
  the function and, for an event handler, by its position in the list of its type.
\<close>

datatype runtimeCall = RandomUUID | NewDate

datatype ('c, 'd, 's) call =
    LoadCall string "string list"
  | UpcastCall string string "'d CloudEvent"
  | RebuildCall string string 'd "'s option"
  | HandleCall string string 'c "'s option"
  | RuntimeCall runtimeCall
  | NotifyCall string nat "'d CloudEvent" "'s option"

type_synonym ('a, 'c, 'd, 's, 'x) run = "('c, 'd, 's) call list \<times> ('x + 'a)"

definition andThen ::
  "('a, 'c, 'd, 's, 'x) run \<Rightarrow> ('a \<Rightarrow> ('b, 'c, 'd, 's, 'x) run) \<Rightarrow> ('b, 'c, 'd, 's, 'x) run" where
  "andThen m f =
     (case m of
        (t, Inl x) \<Rightarrow> (t, Inl x)
      | (t, Inr v) \<Rightarrow> (case f v of (t', r) \<Rightarrow> (t @ t', r)))"

text \<open>The values the runtime supplies: the \<open>k\<close>-th UUID and the \<open>k\<close>-th clock reading of a run.\<close>

record runtime =
  randomUUID :: "nat \<Rightarrow> string"
  toISOString :: "nat \<Rightarrow> string"

definition maybeUpcast ::
  "('c, 'd, 's, 'x) registry \<Rightarrow> 'd CloudEvent \<Rightarrow> ('d CloudEvent, 'c, 'd, 's, 'x) run" where
  "maybeUpcast reg event =
     (case upcastHandler reg (ce_type event) of
        Some upcaster \<Rightarrow>
          ([UpcastCall (uc_type upcaster) (uc_context upcaster) event], uc_upcast upcaster event)
      | None \<Rightarrow> ([], Inr event))"

text \<open>\<^verbatim>\<open>events.map(maybeUpcast)\<close>\<close>

fun upcastAll ::
  "('c, 'd, 's, 'x) registry \<Rightarrow> 'd CloudEvent list \<Rightarrow> ('d CloudEvent list, 'c, 'd, 's, 'x) run" where
  "upcastAll reg [] = ([], Inr [])"
| "upcastAll reg (event # events) =
     andThen (maybeUpcast reg event) (\<lambda>event'.
     andThen (upcastAll reg events) (\<lambda>events'. ([], Inr (event' # events'))))"

definition executeEvent ::
  "('c, 'd, 's, 'x) registry \<Rightarrow> string \<Rightarrow> 'd CloudEvent \<Rightarrow> 's option
     \<Rightarrow> ('s option, 'c, 'd, 's, 'x) run" where
  "executeEvent reg context event state =
     (case stateRebuilder reg (createKey context (ce_type event)) of
        Some rebuilder \<Rightarrow>
          if sr_context rebuilder = context
          then ([RebuildCall (sr_type rebuilder) (sr_context rebuilder) (ce_data event) state],
                sr_stateRebuilder rebuilder (ce_data event) state)
          else ([], Inr state)
      | None \<Rightarrow> ([], Inr state))"

text \<open>\<^verbatim>\<open>for (const event of events) { state = executeEvent(context, event, state); }\<close>\<close>

fun executeEvents ::
  "('c, 'd, 's, 'x) registry \<Rightarrow> string \<Rightarrow> 'd CloudEvent list \<Rightarrow> 's option
     \<Rightarrow> ('s option, 'c, 'd, 's, 'x) run" where
  "executeEvents reg context [] state = ([], Inr state)"
| "executeEvents reg context (event # events) state =
     andThen (executeEvent reg context event state) (executeEvents reg context events)"

definition createState ::
  "('c, 'd, 's, 'x) registry \<Rightarrow> string \<Rightarrow> string list \<Rightarrow> ('s option, 'c, 'd, 's, 'x) run" where
  "createState reg context subjects =
     andThen (case stateLoader reg context of
                Some stateLoadingFunction \<Rightarrow>
                  ([LoadCall (sl_context stateLoadingFunction) subjects],
                   sl_load stateLoadingFunction subjects)
              | None \<Rightarrow> ([], Inr [])) (\<lambda>events.
     andThen (upcastAll reg events) (\<lambda>events.
     executeEvents reg context events None))"

text \<open>
  The callback of \<^verbatim>\<open>newEvents.map\<close> in \<^verbatim>\<open>handleCommand\<close>: the object literal spreads the
  event and then sets \<^verbatim>\<open>source\<close>, \<^verbatim>\<open>id\<close>, \<^verbatim>\<open>time\<close>, \<^verbatim>\<open>specversion\<close> and \<^verbatim>\<open>data\<close>.
  \<^verbatim>\<open>a ?? b\<close> evaluates \<open>b\<close> only when \<open>a\<close> is \<^verbatim>\<open>null\<close> or \<^verbatim>\<open>undefined\<close>; \<open>nu\<close> and \<open>nt\<close>
  count the UUIDs drawn and the clock readings taken so far.
\<close>

definition materialize ::
  "runtime \<Rightarrow> string \<Rightarrow> 'd CloudEvent \<Rightarrow> nat \<Rightarrow> nat
     \<Rightarrow> runtimeCall list \<times> 'd CloudEvent \<times> nat \<times> nat" where
  "materialize rt src event nu nt =
     (let (t1, i, nu') = (case ce_id event of
                            Some i \<Rightarrow> ([], i, nu)
                          | None \<Rightarrow> ([RandomUUID], randomUUID rt nu, Suc nu));
          (t2, tm, nt') = (case ce_time event of
                             Some tm \<Rightarrow> ([], tm, nt)
                           | None \<Rightarrow> ([NewDate], toISOString rt nt, Suc nt))
      in (t1 @ t2,
          event\<lparr>ce_source := Some (case ce_source event of Some s \<Rightarrow> s | None \<Rightarrow> src),
                ce_id := Some i,
                ce_time := Some tm,
                ce_specversion := Some ''1.0'',
                ce_data := ce_data event\<rparr>,
          nu', nt'))"

fun materializeAll ::
  "runtime \<Rightarrow> string \<Rightarrow> 'd CloudEvent list \<Rightarrow> nat \<Rightarrow> nat
     \<Rightarrow> runtimeCall list \<times> 'd CloudEvent list" where
  "materializeAll rt src [] nu nt = ([], [])"
| "materializeAll rt src (event # events) nu nt =
     (case materialize rt src event nu nt of
        (t, cloudEvent, nu', nt') \<Rightarrow>
          (case materializeAll rt src events nu' nt' of
             (t', cloudEvents) \<Rightarrow> (t @ t', cloudEvent # cloudEvents)))"

text \<open>
  \<^verbatim>\<open>eventHandler.get(cloudEvent.type)!.forEach((eh) => eh.eventHandler(cloudEvent, state))\<close>,
  from position \<open>i\<close> of the list on.
\<close>

fun forEachHandler ::
  "('d, 's, 'x) EventHandler list \<Rightarrow> nat \<Rightarrow> 'd CloudEvent \<Rightarrow> 's option
     \<Rightarrow> (unit, 'c, 'd, 's, 'x) run" where
  "forEachHandler [] i cloudEvent state = ([], Inr ())"
| "forEachHandler (eh # ehs) i cloudEvent state =
     andThen ([NotifyCall (eh_type eh) i cloudEvent state], eh_eventHandler eh cloudEvent state)
       (\<lambda>_. forEachHandler ehs (Suc i) cloudEvent state)"

text \<open>The loop over \<^verbatim>\<open>cloudEvents\<close>.\<close>

fun notifyAll ::
  "('c, 'd, 's, 'x) registry \<Rightarrow> 'd CloudEvent list \<Rightarrow> 's option \<Rightarrow> (unit, 'c, 'd, 's, 'x) run" where
  "notifyAll reg [] state = ([], Inr ())"
| "notifyAll reg (cloudEvent # cloudEvents) state =
     andThen (case eventHandler reg (ce_type cloudEvent) of
                Some ehs \<Rightarrow> forEachHandler ehs 0 cloudEvent state
              | None \<Rightarrow> ([], Inr ()))
       (\<lambda>_. notifyAll reg cloudEvents state)"

definition handleCommand ::
  "runtime \<Rightarrow> ('c, 'd, 's, 'x) registry \<Rightarrow> 'c Command \<Rightarrow> ('s option, 'c, 'd, 's, 'x) run" where
  "handleCommand rt reg command =
     (case commands reg (cmd_type command) of
        Some commandHandler \<Rightarrow>
          andThen (createState reg (ch_context commandHandler) (cmd_subjects command)) (\<lambda>state.
          andThen ([HandleCall (ch_type commandHandler) (ch_context commandHandler)
                      (cmd_data command) state],
                   ch_handle commandHandler (cmd_data command) state) (\<lambda>newEvents.
          andThen (executeEvents reg (ch_context commandHandler) newEvents state) (\<lambda>state.
          case materializeAll rt (source reg) newEvents 0 0 of
            (t, cloudEvents) \<Rightarrow>
              andThen (map RuntimeCall t, Inr ()) (\<lambda>_.
              andThen (notifyAll reg cloudEvents state) (\<lambda>_.
              ([], Inr state))))))
      | None \<Rightarrow> ([], Inr None))"

section \<open>Reading a run\<close>

text \<open>
  The event handlers stored for a type (\<^verbatim>\<open>eventHandler.has(type)\<close> guards the lookup in
  \<open>handleCommand\<close>), and the calls one expects of the fan-out: for each materialized event
  in turn, one call of each handler stored for its type, by position in the list, with
  that event and the given state.
\<close>

definition handlersFor ::
  "('c, 'd, 's, 'x) registry \<Rightarrow> string \<Rightarrow> ('d, 's, 'x) EventHandler list" where
  "handlersFor reg type = (case eventHandler reg type of Some ehs \<Rightarrow> ehs | None \<Rightarrow> [])"

definition notifications ::
  "('c, 'd, 's, 'x) registry \<Rightarrow> 'd CloudEvent list \<Rightarrow> 's option \<Rightarrow> ('c, 'd, 's) call list" where
  "notifications reg cloudEvents state =
     concat (map (\<lambda>cloudEvent.
       map (\<lambda>(i, eh). NotifyCall (eh_type eh) i cloudEvent state)
         (enumerate 0 (handlersFor reg (ce_type cloudEvent)))) cloudEvents)"

text \<open>The calls of state reconstruction under a context, and those of the rest of a dispatch.\<close>

fun replayCall :: "('c, 'd, 's) call \<Rightarrow> string \<Rightarrow> bool" where
  "replayCall (LoadCall c subjects) context = True"
| "replayCall (UpcastCall ty c event) context = True"
| "replayCall (RebuildCall ty c d state) context = (c = context)"
| "replayCall _ context = False"

fun dispatchCall :: "('c, 'd, 's) call \<Rightarrow> string \<Rightarrow> bool" where
  "dispatchCall (HandleCall ty c d state) context = (c = context)"
| "dispatchCall (RebuildCall ty c d state) context = (c = context)"
| "dispatchCall (RuntimeCall r) context = True"
| "dispatchCall (NotifyCall ty i cloudEvent state) context = True"
| "dispatchCall _ context = False"

fun isUpcastCall :: "('c, 'd, 's) call \<Rightarrow> bool" where
  "isUpcastCall (UpcastCall ty context event) = True"
| "isUpcastCall c = False"

text \<open>The calls that materialize an event or hand one to an event handler.\<close>

fun emissionCall :: "('c, 'd, 's) call \<Rightarrow> bool" where
  "emissionCall (RuntimeCall r) = True"
| "emissionCall (NotifyCall ty i cloudEvent state) = True"
| "emissionCall c = False"

text \<open>
  Following the spec (4.3 step 4, used again by 4.4 step 4): one step of the fold. The
  rebuilder registered for the context and the event's type is applied to the event's data
  and the state so far; without one the state stays; once a rebuilder has thrown, the
  exception stays.
\<close>

definition foldStep ::
  "('c, 'd, 's, 'x) registry \<Rightarrow> string \<Rightarrow> 'x + 's option \<Rightarrow> 'd CloudEvent \<Rightarrow> 'x + 's option" where
  "foldStep reg context acc event =
     (case acc of
        Inl x \<Rightarrow> Inl x
      | Inr state \<Rightarrow>
          (case stateRebuilder reg (createKey context (ce_type event)) of
             Some rebuilder \<Rightarrow>
               if sr_context rebuilder = context
               then sr_stateRebuilder rebuilder (ce_data event) state
               else Inr state
           | None \<Rightarrow> Inr state))"

text \<open>How many of the events lack the optional attribute \<open>field\<close>.\<close>

definition draws :: "('d CloudEvent \<Rightarrow> 'a option) \<Rightarrow> 'd CloudEvent list \<Rightarrow> nat" where
  "draws field events = length (filter (\<lambda>event. field event = None) events)"

section \<open>A library domain\<close>

text \<open>
  The inventory domain of the README, with numbers for payloads and state: the loader
  returns one \<open>Registered\<close> event carrying the number of copies, \<open>borrow\<close> rejects the
  command when no copy is left and emits one \<open>Borrowed\<close> event otherwise, and two
  event handlers are registered for \<open>Borrowed\<close>.
\<close>

definition minimalEvent :: "string \<Rightarrow> string \<Rightarrow> 'd \<Rightarrow> 'd CloudEvent" where
  "minimalEvent type subject d =
     \<lparr>ce_id = None, ce_source = None, ce_type = type, ce_specversion = None,
      ce_datacontenttype = None, ce_dataschema = None, ce_subject = subject, ce_time = None,
      ce_data = d, ce_extensions = []\<rparr>"

definition borrowBook :: "nat \<Rightarrow> nat option \<Rightarrow> string + nat CloudEvent list" where
  "borrowBook isbn state =
     (case state of
        None \<Rightarrow> Inl ''No copy available anymore''
      | Some amount \<Rightarrow>
          if amount \<le> 0 then Inl ''No copy available anymore''
          else Inr [minimalEvent ''Borrowed'' ''/b/1'' isbn])"

definition onRegistered :: "nat \<Rightarrow> nat option \<Rightarrow> string + nat option" where
  "onRegistered amount state = Inr (Some amount)"

definition onBorrowed :: "nat \<Rightarrow> nat option \<Rightarrow> string + nat option" where
  "onBorrowed isbn state =
     (case state of None \<Rightarrow> Inl ''TypeError'' | Some amount \<Rightarrow> Inr (Some (amount - 1)))"

definition onCataloged :: "nat \<Rightarrow> nat option \<Rightarrow> string + nat option" where
  "onCataloged amount state = Inr (Some 0)"

definition upcastRegistered :: "nat CloudEvent \<Rightarrow> string + nat CloudEvent" where
  "upcastRegistered event = Inr (event\<lparr>ce_data := 10 * ce_data event\<rparr>)"

definition stateLoading :: "nat \<Rightarrow> string list \<Rightarrow> string + nat CloudEvent list" where
  "stateLoading amount subjects = Inr [minimalEvent ''Registered'' ''/b/1'' amount]"

definition save :: "nat CloudEvent \<Rightarrow> nat option \<Rightarrow> string + unit" where
  "save event state = Inr ()"

definition project :: "nat CloudEvent \<Rightarrow> nat option \<Rightarrow> string + unit" where
  "project event state = Inr ()"

definition failingSave :: "nat CloudEvent \<Rightarrow> nat option \<Rightarrow> string + unit" where
  "failingSave event state = Inl ''disk full''"

definition library ::
  "nat \<Rightarrow> (nat CloudEvent \<Rightarrow> nat option \<Rightarrow> string + unit)
     \<Rightarrow> (nat CloudEvent \<Rightarrow> nat option \<Rightarrow> string + unit) \<Rightarrow> (nat, nat, nat, string) registry" where
  "library amount first second =
     registerEventhandler ''Borrowed'' second
    (registerEventhandler ''Borrowed'' first
    (registerStateLoadingFunction ''inventory'' (stateLoading amount)
    (snd (registerUpcaster ''Registered'' ''inventory'' upcastRegistered
    (snd (registerStateRebuilder ''Registered'' ''catalog'' onCataloged
    (snd (registerStateRebuilder ''Borrowed'' ''inventory'' onBorrowed
    (snd (registerStateRebuilder ''Registered'' ''inventory'' onRegistered
    (snd (registerCommandHandler ''borrow'' ''inventory'' borrowBook
    (setSource ''https://library.evcojs.org'' initial)))))))))))))"

definition clock :: runtime where
  "clock = \<lparr>randomUUID = (\<lambda>k. replicate (Suc k) CHR ''u''),
            toISOString = (\<lambda>k. ''2026-01-01T00:00:0'' @ replicate (Suc k) CHR ''0'' @ ''Z'')\<rparr>"

definition borrow :: "nat Command" where
  "borrow = \<lparr>cmd_type = ''borrow'', cmd_subjects = [''/b/1''], cmd_data = 7\<rparr>"

text \<open>The wire form of the event \<open>borrow\<close> produces, as \<open>clock\<close> fills it in.\<close>

definition borrowed :: "nat CloudEvent" where
  "borrowed =
     \<lparr>ce_id = Some ''u'', ce_source = Some ''https://library.evcojs.org'',
      ce_type = ''Borrowed'', ce_specversion = Some ''1.0'', ce_datacontenttype = None,
      ce_dataschema = None, ce_subject = ''/b/1'', ce_time = Some ''2026-01-01T00:00:00Z'',
      ce_data = 7, ce_extensions = []\<rparr>"

text \<open>
  A second inventory registry, built by the registration functions alone, in which
  upcasters do run: the stored event has the type \<open>[inventory|Registered]\<close>, the very
  text under which \<open>registerUpcaster\<close> files the upcaster of (\<open>inventory\<close>, \<open>Registered\<close>).
  Its command handler returns two events, one of type \<open>Borrowed\<close>, for which an upcaster
  is registered under \<open>inventory\<close>, and one of type \<open>[inventory|Borrowed]\<close>, the text
  under which that upcaster is filed. Last, the upcaster table as it is when the
  upcaster of \<open>Borrowed\<close> is never registered.
\<close>

definition keyedLoading :: "string list \<Rightarrow> string + nat CloudEvent list" where
  "keyedLoading subjects = Inr [minimalEvent ''[inventory|Registered]'' ''/b/1'' 3]"

definition borrowTwo :: "nat \<Rightarrow> nat option \<Rightarrow> string + nat CloudEvent list" where
  "borrowTwo isbn state =
     (case state of
        None \<Rightarrow> Inl ''No copy available anymore''
      | Some amount \<Rightarrow>
          if amount \<le> 1 then Inl ''No copy available anymore''
          else Inr [minimalEvent ''Borrowed'' ''/b/1'' isbn,
                    minimalEvent ''[inventory|Borrowed]'' ''/b/2'' (isbn + 1)])"

definition upcastBorrowed :: "nat CloudEvent \<Rightarrow> string + nat CloudEvent" where
  "upcastBorrowed event = Inr (event\<lparr>ce_data := 10 * ce_data event\<rparr>)"

definition keyed :: "(nat, nat, nat, string) registry" where
  "keyed =
     registerEventhandler ''[inventory|Borrowed]'' project
    (registerEventhandler ''Borrowed'' save
    (registerStateLoadingFunction ''inventory'' keyedLoading
    (snd (registerUpcaster ''Borrowed'' ''inventory'' upcastBorrowed
    (snd (registerUpcaster ''Registered'' ''inventory'' upcastRegistered
    (snd (registerStateRebuilder ''[inventory|Borrowed]'' ''inventory'' onBorrowed
    (snd (registerStateRebuilder ''Borrowed'' ''inventory'' onBorrowed
    (snd (registerStateRebuilder ''[inventory|Registered]'' ''inventory'' onRegistered
    (snd (registerCommandHandler ''borrow'' ''inventory'' borrowTwo
    (setSource ''https://library.evcojs.org'' initial)))))))))))))))"

definition withoutBorrowed :: "string \<rightharpoonup> (nat, string) UpCasthandler" where
  "withoutBorrowed =
     upcastHandler (snd (registerUpcaster ''Registered'' ''inventory'' upcastRegistered
       (initial :: (nat, nat, nat, string) registry)))"

text \<open>The wire forms of the two events \<open>borrowTwo\<close> returns, as \<open>clock\<close> fills them in.\<close>

definition borrowedFirst :: "nat CloudEvent" where
  "borrowedFirst =
     \<lparr>ce_id = Some ''u'', ce_source = Some ''https://library.evcojs.org'',
      ce_type = ''Borrowed'', ce_specversion = Some ''1.0'', ce_datacontenttype = None,
      ce_dataschema = None, ce_subject = ''/b/1'', ce_time = Some ''2026-01-01T00:00:00Z'',
      ce_data = 7, ce_extensions = []\<rparr>"

definition borrowedSecond :: "nat CloudEvent" where
  "borrowedSecond =
     \<lparr>ce_id = Some ''uu'', ce_source = Some ''https://library.evcojs.org'',
      ce_type = ''[inventory|Borrowed]'', ce_specversion = Some ''1.0'',
      ce_datacontenttype = None, ce_dataschema = None, ce_subject = ''/b/2'',
      ce_time = Some ''2026-01-01T00:00:000Z'', ce_data = 8, ce_extensions = []\<rparr>"

text \<open>A command handler that gives its event the empty string as \<^verbatim>\<open>id\<close>.\<close>

definition tagHandler :: "nat \<Rightarrow> nat option \<Rightarrow> string + nat CloudEvent list" where
  "tagHandler d state = Inr [(minimalEvent ''t'' ''/s/1'' d)\<lparr>ce_id := Some ''''\<rparr>]"

definition tagging :: "(nat, nat, nat, string) registry" where
  "tagging = registerEventhandler ''t'' save
     (snd (registerCommandHandler ''tag'' ''c'' tagHandler initial))"

definition tag :: "nat Command" where
  "tag = \<lparr>cmd_type = ''tag'', cmd_subjects = [], cmd_data = 7\<rparr>"

section \<open>Runs and their calls\<close>

lemma andThen_throw: "andThen (t, Inl x) f = (t, Inl x)"
  by (simp add: andThen_def)

lemma andThen_value: "andThen (t, Inr v) f = (t @ fst (f v), snd (f v))"
  by (simp add: andThen_def split: prod.split)

lemma fst_andThen:
  "fst (andThen m f) = (case snd m of Inl x \<Rightarrow> fst m | Inr v \<Rightarrow> fst m @ fst (f v))"
  by (cases m) (simp add: andThen_def split: sum.split prod.split)

subsection \<open>State reconstruction\<close>

lemma executeEvent_rebuilds:
  "c \<in> set (fst (executeEvent reg context event state)) \<Longrightarrow>
     \<exists>ty d s. c = RebuildCall ty context d s"
  by (auto simp: executeEvent_def split: option.splits if_splits)

lemma executeEvents_rebuilds:
  "c \<in> set (fst (executeEvents reg context events state)) \<Longrightarrow>
     \<exists>ty d s. c = RebuildCall ty context d s"
proof (induction events arbitrary: state)
  case Nil
  then show ?case by simp
next
  case (Cons event events)
  then show ?case
    by (auto simp: fst_andThen split: sum.splits dest: executeEvent_rebuilds)
qed

lemma maybeUpcast_upcasts:
  "c \<in> set (fst (maybeUpcast reg event)) \<Longrightarrow> \<exists>ty ctx. c = UpcastCall ty ctx event"
  by (auto simp: maybeUpcast_def split: option.splits)

lemma upcastAll_upcasts:
  "c \<in> set (fst (upcastAll reg events)) \<Longrightarrow>
     \<exists>ty ctx event. c = UpcastCall ty ctx event \<and> event \<in> set events"
proof (induction events)
  case Nil
  then show ?case by simp
next
  case (Cons event events)
  then show ?case
    by (fastforce simp: fst_andThen split: sum.splits dest: maybeUpcast_upcasts)
qed

lemma createState_calls:
  assumes "c \<in> set (fst (createState reg context subjects))"
  shows "replayCall c context"
proof -
  have "(\<exists>ctx. c = LoadCall ctx subjects) \<or> (\<exists>ty ctx event. c = UpcastCall ty ctx event)
      \<or> (\<exists>ty d s. c = RebuildCall ty context d s)"
    using assms
    by (auto simp: createState_def fst_andThen split: sum.splits option.splits
          dest: upcastAll_upcasts executeEvents_rebuilds)
  then show ?thesis by auto
qed

lemma createState_upcasts:
  assumes "UpcastCall ty c e \<in> set (fst (createState reg context subjects))"
  shows "\<exists>slf events. stateLoader reg context = Some slf \<and> sl_load slf subjects = Inr events
           \<and> e \<in> set events"
  using assms
  by (auto simp: createState_def fst_andThen split: sum.splits option.splits
        dest: upcastAll_upcasts executeEvents_rebuilds)

lemma replayCall_no_emission: "replayCall c context \<Longrightarrow> \<not> emissionCall c"
  by (cases c) simp_all

lemma dispatchCall_context: "dispatchCall (RebuildCall ty c d s) context \<Longrightarrow> c = context"
  by simp

lemma dispatchCall_no_upcast: "dispatchCall c context \<Longrightarrow> \<not> isUpcastCall c"
  by (cases c) simp_all

text \<open>
  Registering a rebuilder under one context changes nothing in the replay of any event
  under another context.
\<close>

lemma registerStateRebuilder_other_context:
  assumes "contextA \<noteq> contextB"
    and "registerStateRebuilder X contextA f reg = (Inr (), reg')"
  shows "executeEvent reg' contextB event state = executeEvent reg contextB event state"
proof -
  let ?key = "createKey contextA X"
  let ?new = "\<lparr>sr_stateRebuilder = f, sr_context = contextA, sr_type = X\<rparr>"
  have fresh: "stateRebuilder reg ?key = None"
    using assms(2) by (simp add: registerStateRebuilder_def Let_def domIff split: if_splits)
  have reg': "stateRebuilder reg' = (stateRebuilder reg)(?key \<mapsto> ?new)"
    using assms(2) by (auto simp: registerStateRebuilder_def Let_def split: if_splits)
  show ?thesis
  proof (cases "createKey contextB (ce_type event) = ?key")
    case True
    then show ?thesis using fresh assms(1) by (simp add: executeEvent_def reg')
  next
    case False
    then show ?thesis by (simp add: executeEvent_def reg')
  qed
qed

subsection \<open>The fan-out\<close>

lemma forEachHandler_notifies:
  "c \<in> set (fst (forEachHandler ehs i cloudEvent state)) \<Longrightarrow>
     \<exists>ty j. c = NotifyCall ty j cloudEvent state"
proof (induction ehs arbitrary: i)
  case Nil
  then show ?case by simp
next
  case (Cons eh ehs)
  then show ?case
    by (auto simp: fst_andThen split: sum.splits)
qed

lemma notifyAll_notifies:
  "c \<in> set (fst (notifyAll reg cloudEvents state)) \<Longrightarrow>
     \<exists>ty j cloudEvent. c = NotifyCall ty j cloudEvent state \<and> cloudEvent \<in> set cloudEvents"
proof (induction cloudEvents)
  case Nil
  then show ?case by simp
next
  case (Cons cloudEvent cloudEvents)
  then show ?case
    by (fastforce simp: fst_andThen split: sum.splits option.splits
          dest: forEachHandler_notifies)
qed

lemma forEachHandler_returns:
  "\<forall>eh \<in> set ehs. eh_eventHandler eh cloudEvent state = Inr () \<Longrightarrow>
     forEachHandler ehs i cloudEvent state =
       (map (\<lambda>(j, eh). NotifyCall (eh_type eh) j cloudEvent state) (enumerate i ehs), Inr ())"
  by (induction ehs arbitrary: i) (simp_all add: andThen_value)

lemma notifyAll_returns:
  "\<forall>cloudEvent \<in> set cloudEvents. \<forall>eh \<in> set (handlersFor reg (ce_type cloudEvent)).
      eh_eventHandler eh cloudEvent state = Inr () \<Longrightarrow>
   notifyAll reg cloudEvents state = (notifications reg cloudEvents state, Inr ())"
proof (induction cloudEvents)
  case Nil
  then show ?case by (simp add: notifications_def)
next
  case (Cons cloudEvent cloudEvents)
  have rest: "notifyAll reg cloudEvents state = (notifications reg cloudEvents state, Inr ())"
    using Cons by simp
  have this_one: "(case eventHandler reg (ce_type cloudEvent) of
               Some ehs \<Rightarrow> forEachHandler ehs 0 cloudEvent state
             | None \<Rightarrow> ([], Inr ())) =
            (map (\<lambda>(j, eh). NotifyCall (eh_type eh) j cloudEvent state)
               (enumerate 0 (handlersFor reg (ce_type cloudEvent))), Inr ())"
    using Cons.prems
    by (auto simp: handlersFor_def forEachHandler_returns split: option.splits)
  show ?case
    by (simp add: this_one rest andThen_value notifications_def)
qed

lemma registerEventhandler_appends:
  "handlersFor (registerEventhandler type func reg) type' =
     (if type' = type
      then handlersFor reg type @ [\<lparr>eh_eventHandler = func, eh_type = type\<rparr>]
      else handlersFor reg type')"
  by (auto simp: registerEventhandler_def handlersFor_def Let_def domIff split: option.splits)

subsection \<open>A dispatch, stage by stage\<close>

lemma handleCommand_replay_throws:
  assumes "commands reg (cmd_type command) = Some h"
    and "createState reg (ch_context h) (cmd_subjects command) = (t0, Inl x)"
  shows "handleCommand rt reg command = (t0, Inl x)"
  using assms by (simp add: handleCommand_def andThen_throw)

lemma handleCommand_throws:
  assumes "commands reg (cmd_type command) = Some h"
    and "createState reg (ch_context h) (cmd_subjects command) = (t0, Inr state)"
    and "ch_handle h (cmd_data command) state = Inl x"
  shows "handleCommand rt reg command =
     (t0 @ [HandleCall (ch_type h) (ch_context h) (cmd_data command) state], Inl x)"
  using assms by (simp add: handleCommand_def andThen_throw andThen_value)

lemma handleCommand_run:
  assumes "commands reg (cmd_type command) = Some h"
    and "createState reg (ch_context h) (cmd_subjects command) = (t0, Inr state)"
    and "ch_handle h (cmd_data command) state = Inr newEvents"
    and "executeEvents reg (ch_context h) newEvents state = (t1, Inr state')"
    and "materializeAll rt (source reg) newEvents 0 0 = (t2, cloudEvents)"
    and "notifyAll reg cloudEvents state' = (t3, r)"
  shows "handleCommand rt reg command =
     (t0 @ [HandleCall (ch_type h) (ch_context h) (cmd_data command) state] @ t1
        @ map RuntimeCall t2 @ t3,
      case r of Inl x \<Rightarrow> Inl x | Inr u \<Rightarrow> Inr state')"
  using assms
  by (cases r) (simp_all add: handleCommand_def andThen_throw andThen_value)

lemma handleCommand_calls:
  fixes reg :: "('c, 'd, 's, 'x) registry"
  assumes "commands reg (cmd_type command) = Some h"
  shows "\<exists>rest. fst (handleCommand rt reg command) =
            fst (createState reg (ch_context h) (cmd_subjects command)) @ rest
          \<and> list_all (\<lambda>c. dispatchCall c (ch_context h)) rest"
proof (cases "createState reg (ch_context h) (cmd_subjects command)")
  case (Pair t0 r0)
  show ?thesis
  proof (cases r0)
    case (Inl x)
    then show ?thesis using assms Pair by (simp add: handleCommand_replay_throws)
  next
    case (Inr state)
    note st = Pair [unfolded Inr]
    show ?thesis
    proof (cases "ch_handle h (cmd_data command) state")
      case (Inl x)
      then show ?thesis using assms st by (simp add: handleCommand_throws)
    next
      case (Inr newEvents)
      note handled = this
      obtain t1 r1 where ex: "executeEvents reg (ch_context h) newEvents state = (t1, r1)"
        by (cases "executeEvents reg (ch_context h) newEvents state")
      have t1: "list_all (\<lambda>c. dispatchCall c (ch_context h)) t1"
        using executeEvents_rebuilds [of _ reg "ch_context h" newEvents state] ex
        by (fastforce simp: list_all_iff)
      show ?thesis
      proof (cases r1)
        case (Inl x)
        then show ?thesis using assms st handled ex t1
          by (simp add: handleCommand_def andThen_throw andThen_value)
      next
        case (Inr state')
        obtain t2 cloudEvents
          where ma: "materializeAll rt (source reg) newEvents 0 0 = (t2, cloudEvents)"
          by (cases "materializeAll rt (source reg) newEvents 0 0")
        obtain t3 r3 where na: "notifyAll reg cloudEvents state' = (t3, r3)"
          by (cases "notifyAll reg cloudEvents state'")
        have t2: "list_all (\<lambda>c. dispatchCall c (ch_context h)) (map RuntimeCall t2)"
          by (simp add: list_all_iff)
        have t3: "list_all (\<lambda>c. dispatchCall c (ch_context h)) t3"
          using notifyAll_notifies [of _ reg cloudEvents state'] na
          by (fastforce simp: list_all_iff)
        show ?thesis
          using handleCommand_run [OF assms st handled ex [unfolded Inr] ma na] t1 t2 t3 st
          by simp
      qed
    qed
  qed
qed

lemma handleCommand_upcastHandler:
  assumes "commands reg (cmd_type command) = Some h"
    and "createState (reg\<lparr>upcastHandler := u\<rparr>) (ch_context h) (cmd_subjects command) =
         createState reg (ch_context h) (cmd_subjects command)"
  shows "handleCommand rt (reg\<lparr>upcastHandler := u\<rparr>) command = handleCommand rt reg command"
proof -
  have ex: "executeEvents (reg\<lparr>upcastHandler := u\<rparr>) c es = executeEvents reg c es" for c es
  proof (induction es)
    case Nil
    show ?case by (rule ext) simp
  next
    case (Cons e es)
    show ?case by (rule ext) (simp add: Cons executeEvent_def)
  qed
  have no: "notifyAll (reg\<lparr>upcastHandler := u\<rparr>) ces s = notifyAll reg ces s" for ces s
    by (induction ces) simp_all
  show ?thesis using assms by (simp add: handleCommand_def ex no)
qed

subsection \<open>Materialization\<close>

lemma draws_append: "draws field (xs @ ys) = draws field xs + draws field ys"
  by (simp add: draws_def)

lemma draws_Cons: "draws field (event # events) = draws field [event] + draws field events"
  using draws_append [of field "[event]" events] by simp

lemma draws_take_le: "draws field (take j events) \<le> draws field events"
  using draws_append [of field "take j events" "drop j events"] by simp

lemma draws_take_less:
  assumes "j < i" and "i < length events" and "field (events ! j) = None"
  shows "draws field (take j events) < draws field (take i events)"
proof -
  have "take (Suc j) events = take (Suc j) (take i events)"
    using assms(1) by (simp add: min_def)
  then have "draws field (take (Suc j) events) \<le> draws field (take i events)"
    using draws_take_le [of field "Suc j" "take i events"] by simp
  moreover have "draws field (take (Suc j) events) = Suc (draws field (take j events))"
    using assms by (simp add: take_Suc_conv_app_nth draws_def)
  ultimately show ?thesis by simp
qed

lemma materialize_counts:
  "materialize rt src event nu nt = (t, cloudEvent, nu', nt') \<Longrightarrow>
     nu' = nu + draws ce_id [event] \<and> nt' = nt + draws ce_time [event]"
  by (auto simp: materialize_def draws_def split: option.splits)

lemma materialize_fields:
  "fst (snd (materialize rt src event nu nt)) =
     event\<lparr>ce_source := Some (case ce_source event of Some s \<Rightarrow> s | None \<Rightarrow> src),
           ce_id := Some (case ce_id event of Some i \<Rightarrow> i | None \<Rightarrow> randomUUID rt nu),
           ce_time := Some (case ce_time event of Some tm \<Rightarrow> tm | None \<Rightarrow> toISOString rt nt),
           ce_specversion := Some ''1.0''\<rparr>"
  by (simp add: materialize_def split: option.splits)

lemma materializeAll_Cons:
  assumes "materialize rt src event nu nt = (t, cloudEvent, nu', nt')"
  shows "snd (materializeAll rt src (event # events) nu nt) =
     cloudEvent # snd (materializeAll rt src events nu' nt')"
  using assms by (cases "materializeAll rt src events nu' nt'") simp

lemma materializeAll_nth:
  "i < length events \<Longrightarrow>
     snd (materializeAll rt src events nu nt) ! i =
       fst (snd (materialize rt src (events ! i)
         (nu + draws ce_id (take i events)) (nt + draws ce_time (take i events))))"
proof (induction events arbitrary: i nu nt)
  case Nil
  then show ?case by simp
next
  case (Cons event events)
  obtain t cloudEvent nu' nt' where m: "materialize rt src event nu nt = (t, cloudEvent, nu', nt')"
    by (cases "materialize rt src event nu nt") auto
  note step = materializeAll_Cons [OF m]
  show ?case
  proof (cases i)
    case 0
    show ?thesis unfolding step 0 by (simp add: m draws_def)
  next
    case (Suc j)
    then have j: "j < length events" using Cons.prems by simp
    have d1: "draws ce_id (event # take j events) = draws ce_id [event] + draws ce_id (take j events)"
      by (rule draws_Cons)
    have d2: "draws ce_time (event # take j events) =
        draws ce_time [event] + draws ce_time (take j events)"
      by (rule draws_Cons)
    from Cons.IH [OF j, of nu' nt'] show ?thesis
      unfolding step Suc using materialize_counts [OF m]
      by (simp add: d1 d2 add.assoc)
  qed
qed

subsection \<open>New events of a dispatch\<close>

lemma executeEvent_foldStep:
  "snd (executeEvent reg context event state) = foldStep reg context (Inr state) event"
  by (simp add: executeEvent_def foldStep_def split: option.splits)

lemma foldl_foldStep_thrown: "foldl (foldStep reg context) (Inl x) events = Inl x"
  by (induction events) (simp_all add: foldStep_def)

lemma executeEvents_foldl:
  "snd (executeEvents reg context events state) = foldl (foldStep reg context) (Inr state) events"
proof (induction events arbitrary: state)
  case Nil
  show ?case by simp
next
  case (Cons event events)
  obtain t r where e: "executeEvent reg context event state = (t, r)"
    by (cases "executeEvent reg context event state")
  have step: "foldStep reg context (Inr state) event = r"
    using executeEvent_foldStep [of reg "context" event state] e by simp
  show ?case
  proof (cases r)
    case (Inl x)
    then show ?thesis
      by (simp add: e step andThen_throw foldl_foldStep_thrown)
  next
    case (Inr state')
    then show ?thesis
      using Cons [of state'] by (simp add: e step andThen_value)
  qed
qed

lemma materialize_keeps:
  assumes "materialize rt src event nu nt = (t, cloudEvent, nu', nt')"
  shows "ce_type cloudEvent = ce_type event \<and> ce_subject cloudEvent = ce_subject event
     \<and> ce_data cloudEvent = ce_data event \<and> ce_extensions cloudEvent = ce_extensions event"
  using assms materialize_fields [of rt src event nu nt] by simp

lemma materializeAll_keeps:
  "map ce_type (snd (materializeAll rt src events nu nt)) = map ce_type events
   \<and> map ce_subject (snd (materializeAll rt src events nu nt)) = map ce_subject events
   \<and> map ce_data (snd (materializeAll rt src events nu nt)) = map ce_data events
   \<and> map ce_extensions (snd (materializeAll rt src events nu nt)) = map ce_extensions events"
proof (induction events arbitrary: nu nt)
  case Nil
  show ?case by simp
next
  case (Cons event events)
  obtain t cloudEvent nu' nt' where m: "materialize rt src event nu nt = (t, cloudEvent, nu', nt')"
    by (cases "materialize rt src event nu nt") auto
  show ?case
    unfolding materializeAll_Cons [OF m]
    using Cons [of nu' nt'] materialize_keeps [OF m] by simp
qed

lemma handleCommand_new_events:
  assumes "commands reg (cmd_type command) = Some h"
    and "createState reg (ch_context h) (cmd_subjects command) = (t0, Inr state)"
    and "ch_handle h (cmd_data command) state = Inr newEvents"
  shows "handleCommand rt reg command =
     andThen (t0 @ [HandleCall (ch_type h) (ch_context h) (cmd_data command) state], Inr ()) (\<lambda>u.
     andThen (executeEvents reg (ch_context h) newEvents state) (\<lambda>state'.
     andThen (map RuntimeCall (fst (materializeAll rt (source reg) newEvents 0 0)), Inr ()) (\<lambda>u.
     andThen (notifyAll reg (snd (materializeAll rt (source reg) newEvents 0 0)) state') (\<lambda>u.
     ([], Inr state')))))"
proof -
  obtain t1 r1 where ex: "executeEvents reg (ch_context h) newEvents state = (t1, r1)"
    by (cases "executeEvents reg (ch_context h) newEvents state")
  obtain t2 cloudEvents where m: "materializeAll rt (source reg) newEvents 0 0 = (t2, cloudEvents)"
    by (cases "materializeAll rt (source reg) newEvents 0 0")
  show ?thesis
  proof (cases r1)
    case (Inl x)
    then show ?thesis
      using assms ex by (simp add: handleCommand_def andThen_throw andThen_value)
  next
    case (Inr state')
    obtain t3 r3 where n: "notifyAll reg cloudEvents state' = (t3, r3)"
      by (cases "notifyAll reg cloudEvents state'")
    show ?thesis
      using assms ex Inr m n
      by (cases r3) (simp_all add: handleCommand_def andThen_throw andThen_value)
  qed
qed

section \<open>The library domain at work\<close>

lemmas registration_defs = registerEventhandler_def registerStateLoadingFunction_def
  registerUpcaster_def registerStateRebuilder_def registerCommandHandler_def setSource_def
  initial_def createKey_def Let_def

lemma borrow_fields:
  "cmd_type borrow = ''borrow''" "cmd_subjects borrow = [''/b/1'']" "cmd_data borrow = 7"
  by (simp_all add: borrow_def)

lemma library_commands:
  "commands (library amount first second) ''borrow'' =
     Some \<lparr>ch_handle = borrowBook, ch_context = ''inventory'', ch_type = ''borrow''\<rparr>"
  by (simp add: library_def registration_defs)

lemma library_source: "source (library amount first second) = ''https://library.evcojs.org''"
  by (simp add: library_def registration_defs)

lemma library_upcastHandler:
  "upcastHandler (library amount first second) =
     [''[inventory|Registered]'' \<mapsto>
        \<lparr>uc_upcast = upcastRegistered, uc_type = ''Registered'', uc_context = ''inventory''\<rparr>]"
  by (simp add: library_def registration_defs)

lemma library_handlersFor:
  "handlersFor (library amount first second) type =
     (if type = ''Borrowed''
      then [\<lparr>eh_eventHandler = first, eh_type = ''Borrowed''\<rparr>,
            \<lparr>eh_eventHandler = second, eh_type = ''Borrowed''\<rparr>]
      else [])"
  by (simp add: library_def registration_defs handlersFor_def)

lemma library_createState:
  "createState (library amount first second) ''inventory'' subjects =
     ([LoadCall ''inventory'' subjects, RebuildCall ''Registered'' ''inventory'' amount None],
      Inr (Some amount))"
  by (simp add: library_def registration_defs createState_def andThen_value maybeUpcast_def
        executeEvent_def minimalEvent_def onRegistered_def stateLoading_def)

lemma library_executeEvents:
  "executeEvents (library amount first second) ''inventory''
     [minimalEvent ''Borrowed'' ''/b/1'' isbn] (Some (Suc n)) =
     ([RebuildCall ''Borrowed'' ''inventory'' isbn (Some (Suc n))], Inr (Some n))"
  by (simp add: library_def registration_defs andThen_value executeEvent_def minimalEvent_def
        onBorrowed_def)

lemma clock_materializeAll:
  "materializeAll clock ''https://library.evcojs.org'' [minimalEvent ''Borrowed'' ''/b/1'' 7] 0 0 =
     ([RandomUUID, NewDate], [borrowed])"
  by (simp add: materialize_def minimalEvent_def clock_def borrowed_def)

lemma library_notifyAll:
  "notifyAll (library amount first second) [borrowed] state =
     andThen ([NotifyCall ''Borrowed'' 0 borrowed state], first borrowed state) (\<lambda>u.
     andThen ([NotifyCall ''Borrowed'' 1 borrowed state], second borrowed state) (\<lambda>u.
     ([], Inr ())))"
proof -
  have "eventHandler (library amount first second) (ce_type borrowed) =
      Some [\<lparr>eh_eventHandler = first, eh_type = ''Borrowed''\<rparr>,
            \<lparr>eh_eventHandler = second, eh_type = ''Borrowed''\<rparr>]"
    by (simp add: library_def registration_defs borrowed_def)
  then show ?thesis
    by (cases "first borrowed state"; cases "second borrowed state")
      (simp_all add: andThen_value andThen_throw)
qed

text \<open>One dispatch of \<open>borrow\<close> with three copies on record, whatever the event handlers do.\<close>

lemma library_dispatch:
  assumes "notifyAll (library 3 first second) [borrowed] (Some 2) = (t3, r)"
  shows "handleCommand clock (library 3 first second) borrow =
     ([LoadCall ''inventory'' [''/b/1''], RebuildCall ''Registered'' ''inventory'' 3 None,
       HandleCall ''borrow'' ''inventory'' 7 (Some 3),
       RebuildCall ''Borrowed'' ''inventory'' 7 (Some 3),
       RuntimeCall RandomUUID, RuntimeCall NewDate] @ t3,
      case r of Inl x \<Rightarrow> Inl x | Inr u \<Rightarrow> Inr (Some 2))"
proof -
  let ?reg = "library 3 first second"
  let ?h = "\<lparr>ch_handle = borrowBook, ch_context = ''inventory'', ch_type = ''borrow''\<rparr>"
  have three: "(3::nat) = Suc 2" by simp
  have h1: "commands ?reg (cmd_type borrow) = Some ?h"
    by (simp add: borrow_fields library_commands)
  have h2: "createState ?reg (ch_context ?h) (cmd_subjects borrow) =
      ([LoadCall ''inventory'' [''/b/1''], RebuildCall ''Registered'' ''inventory'' 3 None],
       Inr (Some 3))"
    by (simp add: borrow_fields library_createState)
  have h3: "ch_handle ?h (cmd_data borrow) (Some 3) = Inr [minimalEvent ''Borrowed'' ''/b/1'' 7]"
    by (simp add: borrow_fields borrowBook_def)
  have h4: "executeEvents ?reg (ch_context ?h) [minimalEvent ''Borrowed'' ''/b/1'' 7] (Some 3) =
      ([RebuildCall ''Borrowed'' ''inventory'' 7 (Some 3)], Inr (Some 2))"
    unfolding three CommandHandler.simps by (rule library_executeEvents)
  have h5: "materializeAll clock (source ?reg) [minimalEvent ''Borrowed'' ''/b/1'' 7] 0 0 =
      ([RandomUUID, NewDate], [borrowed])"
    unfolding library_source by (rule clock_materializeAll)
  show ?thesis
    using handleCommand_run [OF h1 h2 h3 h4 h5 assms] by (simp add: borrow_fields)
qed

lemma library_run:
  "handleCommand clock (library 3 save project) borrow =
     ([LoadCall ''inventory'' [''/b/1''], RebuildCall ''Registered'' ''inventory'' 3 None,
       HandleCall ''borrow'' ''inventory'' 7 (Some 3),
       RebuildCall ''Borrowed'' ''inventory'' 7 (Some 3),
       RuntimeCall RandomUUID, RuntimeCall NewDate,
       NotifyCall ''Borrowed'' 0 borrowed (Some 2), NotifyCall ''Borrowed'' 1 borrowed (Some 2)],
      Inr (Some 2))"
proof -
  have "notifyAll (library 3 save project) [borrowed] (Some 2) =
      ([NotifyCall ''Borrowed'' 0 borrowed (Some 2), NotifyCall ''Borrowed'' 1 borrowed (Some 2)],
       Inr ())"
    unfolding library_notifyAll by (simp add: save_def project_def andThen_value)
  from library_dispatch [OF this] show ?thesis by simp
qed

lemma library_failingSave_run:
  "handleCommand clock (library 3 failingSave project) borrow =
     ([LoadCall ''inventory'' [''/b/1''], RebuildCall ''Registered'' ''inventory'' 3 None,
       HandleCall ''borrow'' ''inventory'' 7 (Some 3),
       RebuildCall ''Borrowed'' ''inventory'' 7 (Some 3),
       RuntimeCall RandomUUID, RuntimeCall NewDate,
       NotifyCall ''Borrowed'' 0 borrowed (Some 2)],
      Inl ''disk full'')"
proof -
  have "notifyAll (library 3 failingSave project) [borrowed] (Some 2) =
      ([NotifyCall ''Borrowed'' 0 borrowed (Some 2)], Inl ''disk full'')"
    unfolding library_notifyAll by (simp add: failingSave_def andThen_throw)
  from library_dispatch [OF this] show ?thesis by simp
qed

section \<open>The registry with keyed event types at work\<close>

lemma keyed_commands:
  "commands keyed ''borrow'' =
     Some \<lparr>ch_handle = borrowTwo, ch_context = ''inventory'', ch_type = ''borrow''\<rparr>"
  by (simp add: keyed_def registration_defs)

lemma keyed_source: "source keyed = ''https://library.evcojs.org''"
  by (simp add: keyed_def registration_defs)

lemma keyed_stateLoader:
  "stateLoader keyed ''inventory'' = Some \<lparr>sl_load = keyedLoading, sl_context = ''inventory''\<rparr>"
  by (simp add: keyed_def registration_defs)

lemma keyed_upcastHandler:
  "upcastHandler keyed =
     [''[inventory|Registered]'' \<mapsto>
        \<lparr>uc_upcast = upcastRegistered, uc_type = ''Registered'', uc_context = ''inventory''\<rparr>,
      ''[inventory|Borrowed]'' \<mapsto>
        \<lparr>uc_upcast = upcastBorrowed, uc_type = ''Borrowed'', uc_context = ''inventory''\<rparr>]"
  by (simp add: keyed_def registration_defs)

lemma withoutBorrowed_table:
  "withoutBorrowed =
     [''[inventory|Registered]'' \<mapsto>
        \<lparr>uc_upcast = upcastRegistered, uc_type = ''Registered'', uc_context = ''inventory''\<rparr>]"
  by (simp add: withoutBorrowed_def registration_defs)

lemma keyed_createState:
  assumes "u ''[inventory|Registered]'' =
     Some \<lparr>uc_upcast = upcastRegistered, uc_type = ''Registered'', uc_context = ''inventory''\<rparr>"
  shows "createState (keyed\<lparr>upcastHandler := u\<rparr>) ''inventory'' subjects =
     ([LoadCall ''inventory'' subjects,
       UpcastCall ''Registered'' ''inventory'' (minimalEvent ''[inventory|Registered]'' ''/b/1'' 3),
       RebuildCall ''[inventory|Registered]'' ''inventory'' 30 None],
      Inr (Some 30))"
  using assms
  by (simp add: keyed_def registration_defs createState_def andThen_value maybeUpcast_def
        executeEvent_def minimalEvent_def onRegistered_def keyedLoading_def upcastRegistered_def)

lemma keyed_executeEvents:
  "executeEvents keyed ''inventory''
     [minimalEvent ''Borrowed'' ''/b/1'' 7, minimalEvent ''[inventory|Borrowed]'' ''/b/2'' 8]
     (Some 30) =
     ([RebuildCall ''Borrowed'' ''inventory'' 7 (Some 30),
       RebuildCall ''[inventory|Borrowed]'' ''inventory'' 8 (Some 29)], Inr (Some 28))"
  by (simp add: keyed_def registration_defs andThen_value executeEvent_def minimalEvent_def
        onBorrowed_def)

lemma keyed_materializeAll:
  "materializeAll clock ''https://library.evcojs.org''
     [minimalEvent ''Borrowed'' ''/b/1'' 7, minimalEvent ''[inventory|Borrowed]'' ''/b/2'' 8] 0 0 =
     ([RandomUUID, NewDate, RandomUUID, NewDate], [borrowedFirst, borrowedSecond])"
  by (simp add: materialize_def minimalEvent_def clock_def borrowedFirst_def borrowedSecond_def)

lemma keyed_notifyAll:
  "notifyAll keyed [borrowedFirst, borrowedSecond] state =
     ([NotifyCall ''Borrowed'' 0 borrowedFirst state,
       NotifyCall ''[inventory|Borrowed]'' 0 borrowedSecond state], Inr ())"
  by (simp add: keyed_def registration_defs andThen_value borrowedFirst_def borrowedSecond_def
        save_def project_def)

section \<open>Registration conflicts\<close>

lemma registerCommandHandler_fresh:
  "commands reg type = None \<Longrightarrow>
     registerCommandHandler type context h reg =
       (Inr (), reg\<lparr>commands := (commands reg)
          (type \<mapsto> \<lparr>ch_handle = h, ch_context = context, ch_type = type\<rparr>)\<rparr>)"
  by (simp add: registerCommandHandler_def domIff)

text \<open>
  Claim C5. When a command type already has a handler, registering another one for that
  type, under any context, throws the conflict error and leaves the registry as it was:
  the first handler is still the one stored for the type.
\<close>

theorem registerCommandHandler_conflict:
  "commands reg type = Some first \<Longrightarrow>
     registerCommandHandler type context second reg =
       (Inl (Error (''Command handler for '' @ type @ '' already exists'')), reg)
     \<and> commands (snd (registerCommandHandler type context second reg)) type = Some first"
  by (simp add: registerCommandHandler_def domI)

theorem registerCommandHandler_conflict_witness:
  "commands (snd (registerCommandHandler ''borrow'' ''inventory'' (\<lambda>c s. Inr [])
       (initial :: (nat, nat, nat, string) registry))) ''borrow''
     = Some \<lparr>ch_handle = (\<lambda>c s. Inr []), ch_context = ''inventory'', ch_type = ''borrow''\<rparr>
   \<and> registerCommandHandler ''borrow'' ''catalog'' (\<lambda>c s. Inl ''no'')
       (snd (registerCommandHandler ''borrow'' ''inventory'' (\<lambda>c s. Inr []) initial))
     = (Inl (Error ''Command handler for borrow already exists''),
        snd (registerCommandHandler ''borrow'' ''inventory'' (\<lambda>c s. Inr [])
          (initial :: (nat, nat, nat, string) registry)))
   \<and> commands (snd (registerCommandHandler ''borrow'' ''catalog'' (\<lambda>c s. Inl ''no'')
       (snd (registerCommandHandler ''borrow'' ''inventory'' (\<lambda>c s. Inr [])
          (initial :: (nat, nat, nat, string) registry))))) ''borrow''
     = Some \<lparr>ch_handle = (\<lambda>c s. Inr []), ch_context = ''inventory'', ch_type = ''borrow''\<rparr>"
proof -
  let ?reg1 = "snd (registerCommandHandler ''borrow'' ''inventory'' (\<lambda>c s. Inr [])
       (initial :: (nat, nat, nat, string) registry))"
  have h: "commands ?reg1 ''borrow''
     = Some \<lparr>ch_handle = (\<lambda>c s. Inr []), ch_context = ''inventory'', ch_type = ''borrow''\<rparr>"
    by (simp add: registerCommandHandler_def initial_def)
  from h registerCommandHandler_conflict [OF h, of "''catalog''" "\<lambda>c s. Inl ''no''"]
  show ?thesis by simp
qed

text \<open>
  Claim C9. The pairs (context \<open>a|b\<close>, type \<open>c\<close>) and (context \<open>a\<close>, type \<open>b|c\<close>) are
  distinct and have the same key \<open>[a|b|c]\<close>. Starting from the empty registry,
  registering a state rebuilder for the first pair succeeds and leaves exactly that
  one rebuilder stored; registering one for the second pair then throws the
  duplicate error, although no rebuilder was registered for that pair.
\<close>

theorem registerStateRebuilder_key_collision:
  "(''a|b'', ''c'') \<noteq> (''a'', ''b|c'')
   \<and> createKey ''a|b'' ''c'' = ''[a|b|c]'' \<and> createKey ''a'' ''b|c'' = ''[a|b|c]''
   \<and> registerStateRebuilder ''c'' ''a|b'' f initial =
       (Inr (), initial\<lparr>stateRebuilder :=
          [''[a|b|c]'' \<mapsto> \<lparr>sr_stateRebuilder = f, sr_context = ''a|b'', sr_type = ''c''\<rparr>]\<rparr>)
   \<and> registerStateRebuilder ''b|c'' ''a'' g
        (snd (registerStateRebuilder ''c'' ''a|b'' f initial)) =
       (Inl (Error ''State rebuilder for [a|b|c] already exists''),
        initial\<lparr>stateRebuilder :=
          [''[a|b|c]'' \<mapsto> \<lparr>sr_stateRebuilder = f, sr_context = ''a|b'', sr_type = ''c''\<rparr>]\<rparr>)"
  by (simp add: registerStateRebuilder_def createKey_def initial_def)

section \<open>Commands without a handler\<close>

text \<open>
  Claim C3. A command whose type has no registered command handler makes
  \<open>handleCommand\<close> return \<^verbatim>\<open>null\<close> without throwing, and the run makes no call at all:
  no state loader, no rebuilder and no event handler is invoked.
\<close>

theorem handleCommand_unknown_type:
  "commands reg (cmd_type command) = None \<Longrightarrow> handleCommand rt reg command = ([], Inr None)"
  by (simp add: handleCommand_def)

theorem handleCommand_unknown_type_witness:
  "commands (initial :: (nat, nat, nat, string) registry)
      (cmd_type \<lparr>cmd_type = ''borrow'', cmd_subjects = [''/b/1''], cmd_data = (0::nat)\<rparr>) = None
   \<and> handleCommand \<lparr>randomUUID = (\<lambda>k. ''u''), toISOString = (\<lambda>k. ''t'')\<rparr>
        (initial :: (nat, nat, nat, string) registry)
        \<lparr>cmd_type = ''borrow'', cmd_subjects = [''/b/1''], cmd_data = 0\<rparr> = ([], Inr None)"
proof -
  have h: "commands (initial :: (nat, nat, nat, string) registry)
      (cmd_type \<lparr>cmd_type = ''borrow'', cmd_subjects = [''/b/1''], cmd_data = (0::nat)\<rparr>) = None"
    by (simp add: initial_def)
  from h handleCommand_unknown_type [OF h] show ?thesis by simp
qed

section \<open>Upcasting on replay\<close>

text \<open>
  Claim C1. The claim asks that on every replay an event whose (context, type) has a
  registered upcaster be folded as the upcaster's output. The code stores an upcaster
  under \<open>createKey context type\<close> and looks one up under the bare event type, so the
  two never meet for an ordinary type name. In the library domain an upcaster is
  registered for (\<open>inventory\<close>, \<open>Registered\<close>) and would turn the loaded event's 3 into
  30; \<open>createState\<close> under \<open>inventory\<close> calls no upcaster and folds the original event,
  giving state 3. The same upcaster is applied to an event whose type is the text
  \<open>[inventory|Registered]\<close>, for which no upcaster was registered.
\<close>

theorem createState_skips_registered_upcaster:
  "upcastHandler (library 3 save project) (createKey ''inventory'' ''Registered'') =
     Some \<lparr>uc_upcast = upcastRegistered, uc_type = ''Registered'', uc_context = ''inventory''\<rparr>
   \<and> stateLoading 3 [''/b/1''] = Inr [minimalEvent ''Registered'' ''/b/1'' 3]
   \<and> upcastRegistered (minimalEvent ''Registered'' ''/b/1'' 3) =
       Inr (minimalEvent ''Registered'' ''/b/1'' 30)
   \<and> createState (library 3 save project) ''inventory'' [''/b/1''] =
       ([LoadCall ''inventory'' [''/b/1''], RebuildCall ''Registered'' ''inventory'' 3 None],
        Inr (Some 3))
   \<and> maybeUpcast (library 3 save project) (minimalEvent ''[inventory|Registered]'' ''/b/1'' 3) =
       ([UpcastCall ''Registered'' ''inventory''
           (minimalEvent ''[inventory|Registered]'' ''/b/1'' 3)],
        Inr (minimalEvent ''[inventory|Registered]'' ''/b/1'' 30))"
  by (simp add: library_upcastHandler library_createState createKey_def stateLoading_def
        upcastRegistered_def minimalEvent_def maybeUpcast_def)

text \<open>
  Claim C10. In a dispatch the upcasters called are exactly those called by state
  reconstruction, each on an event the state loader returned. Once the command handler
  has returned its events, the rest of the dispatch works on those events as they are:
  they are folded, in order, by \<open>executeEvents\<close>, whose outcome is the left fold of the
  rebuilder step over them, they are materialized by \<open>materializeAll\<close>, which keeps their
  type, subject, data and extensions, and the materialized events go to the event
  handlers; no call of an upcaster occurs in that part. So the table of upcasters bears
  on a dispatch through state reconstruction alone: replacing it by any table that
  reconstructs the same run leaves the whole dispatch unchanged, whatever upcasters it
  holds for the types of the new events.
\<close>

theorem upcast_only_on_replay:
  assumes "commands reg (cmd_type command) = Some h"
  shows "filter isUpcastCall (fst (handleCommand rt reg command)) =
           filter isUpcastCall (fst (createState reg (ch_context h) (cmd_subjects command)))
     \<and> (UpcastCall ty c event \<in> set (fst (handleCommand rt reg command)) \<longrightarrow>
          (\<exists>slf events. stateLoader reg (ch_context h) = Some slf
             \<and> sl_load slf (cmd_subjects command) = Inr events \<and> event \<in> set events))
     \<and> (createState reg (ch_context h) (cmd_subjects command) = (t0, Inr state)
          \<and> ch_handle h (cmd_data command) state = Inr newEvents \<longrightarrow>
          handleCommand rt reg command =
            andThen (t0 @ [HandleCall (ch_type h) (ch_context h) (cmd_data command) state],
                     Inr ()) (\<lambda>u.
            andThen (executeEvents reg (ch_context h) newEvents state) (\<lambda>state'.
            andThen (map RuntimeCall (fst (materializeAll rt (source reg) newEvents 0 0)),
                     Inr ()) (\<lambda>u.
            andThen (notifyAll reg (snd (materializeAll rt (source reg) newEvents 0 0)) state')
              (\<lambda>u. ([], Inr state')))))
          \<and> snd (executeEvents reg (ch_context h) newEvents state) =
              foldl (foldStep reg (ch_context h)) (Inr state) newEvents
          \<and> filter isUpcastCall (fst (executeEvents reg (ch_context h) newEvents state)) = []
          \<and> map ce_type (snd (materializeAll rt (source reg) newEvents 0 0)) =
              map ce_type newEvents
          \<and> map ce_subject (snd (materializeAll rt (source reg) newEvents 0 0)) =
              map ce_subject newEvents
          \<and> map ce_data (snd (materializeAll rt (source reg) newEvents 0 0)) =
              map ce_data newEvents
          \<and> map ce_extensions (snd (materializeAll rt (source reg) newEvents 0 0)) =
              map ce_extensions newEvents)
     \<and> (createState (reg\<lparr>upcastHandler := u\<rparr>) (ch_context h) (cmd_subjects command) =
           createState reg (ch_context h) (cmd_subjects command) \<longrightarrow>
         handleCommand rt (reg\<lparr>upcastHandler := u\<rparr>) command = handleCommand rt reg command)"
proof -
  obtain rest where split:
    "fst (handleCommand rt reg command) =
       fst (createState reg (ch_context h) (cmd_subjects command)) @ rest"
    and rest: "list_all (\<lambda>c. dispatchCall c (ch_context h)) rest"
    using handleCommand_calls [OF assms, of rt] by auto
  have none: "filter isUpcastCall rest = []"
    using rest by (auto simp: filter_empty_conv list_all_iff dest: dispatchCall_no_upcast)
  have first: "filter isUpcastCall (fst (handleCommand rt reg command)) =
      filter isUpcastCall (fst (createState reg (ch_context h) (cmd_subjects command)))"
    by (simp add: split none)
  have second: "\<exists>slf events. stateLoader reg (ch_context h) = Some slf
             \<and> sl_load slf (cmd_subjects command) = Inr events \<and> event \<in> set events"
    if "UpcastCall ty c event \<in> set (fst (handleCommand rt reg command))"
  proof -
    have "UpcastCall ty c event \<in> set (filter isUpcastCall (fst (handleCommand rt reg command)))"
      using that by simp
    then have "UpcastCall ty c event
        \<in> set (fst (createState reg (ch_context h) (cmd_subjects command)))"
      unfolding first by simp
    then show ?thesis by (rule createState_upcasts)
  qed
  have folded: "filter isUpcastCall (fst (executeEvents reg (ch_context h) newEvents state)) = []"
    by (auto simp: filter_empty_conv dest: executeEvents_rebuilds)
  have third: "handleCommand rt reg command =
            andThen (t0 @ [HandleCall (ch_type h) (ch_context h) (cmd_data command) state],
                     Inr ()) (\<lambda>u.
            andThen (executeEvents reg (ch_context h) newEvents state) (\<lambda>state'.
            andThen (map RuntimeCall (fst (materializeAll rt (source reg) newEvents 0 0)),
                     Inr ()) (\<lambda>u.
            andThen (notifyAll reg (snd (materializeAll rt (source reg) newEvents 0 0)) state')
              (\<lambda>u. ([], Inr state')))))"
    if "createState reg (ch_context h) (cmd_subjects command) = (t0, Inr state)"
      and "ch_handle h (cmd_data command) state = Inr newEvents"
    using assms that by (rule handleCommand_new_events)
  note kept = materializeAll_keeps [of rt "source reg" newEvents 0 0]
  note fold = executeEvents_foldl [of reg "ch_context h" newEvents state]
  show ?thesis
    using first second third folded fold kept handleCommand_upcastHandler [OF assms]
    by blast
qed

theorem upcast_only_on_replay_witness:
  "commands keyed (cmd_type borrow) =
     Some \<lparr>ch_handle = borrowTwo, ch_context = ''inventory'', ch_type = ''borrow''\<rparr>
   \<and> upcastHandler keyed (createKey ''inventory'' ''Borrowed'') =
       Some \<lparr>uc_upcast = upcastBorrowed, uc_type = ''Borrowed'', uc_context = ''inventory''\<rparr>
   \<and> createState keyed ''inventory'' (cmd_subjects borrow) =
       ([LoadCall ''inventory'' [''/b/1''],
         UpcastCall ''Registered'' ''inventory'' (minimalEvent ''[inventory|Registered]'' ''/b/1'' 3),
         RebuildCall ''[inventory|Registered]'' ''inventory'' 30 None],
        Inr (Some 30))
   \<and> borrowTwo (cmd_data borrow) (Some 30) =
       Inr [minimalEvent ''Borrowed'' ''/b/1'' 7, minimalEvent ''[inventory|Borrowed]'' ''/b/2'' 8]
   \<and> maybeUpcast keyed (minimalEvent ''[inventory|Borrowed]'' ''/b/2'' 8) =
       ([UpcastCall ''Borrowed'' ''inventory'' (minimalEvent ''[inventory|Borrowed]'' ''/b/2'' 8)],
        Inr (minimalEvent ''[inventory|Borrowed]'' ''/b/2'' 80))
   \<and> handleCommand clock keyed borrow =
       ([LoadCall ''inventory'' [''/b/1''],
         UpcastCall ''Registered'' ''inventory'' (minimalEvent ''[inventory|Registered]'' ''/b/1'' 3),
         RebuildCall ''[inventory|Registered]'' ''inventory'' 30 None,
         HandleCall ''borrow'' ''inventory'' 7 (Some 30),
         RebuildCall ''Borrowed'' ''inventory'' 7 (Some 30),
         RebuildCall ''[inventory|Borrowed]'' ''inventory'' 8 (Some 29),
         RuntimeCall RandomUUID, RuntimeCall NewDate, RuntimeCall RandomUUID, RuntimeCall NewDate,
         NotifyCall ''Borrowed'' 0 borrowedFirst (Some 28),
         NotifyCall ''[inventory|Borrowed]'' 0 borrowedSecond (Some 28)],
        Inr (Some 28))
   \<and> filter isUpcastCall (fst (handleCommand clock keyed borrow)) =
       [UpcastCall ''Registered'' ''inventory'' (minimalEvent ''[inventory|Registered]'' ''/b/1'' 3)]
   \<and> UpcastCall ''Registered'' ''inventory'' (minimalEvent ''[inventory|Registered]'' ''/b/1'' 3)
       \<in> set (fst (handleCommand clock keyed borrow))
   \<and> stateLoader keyed ''inventory'' =
       Some \<lparr>sl_load = keyedLoading, sl_context = ''inventory''\<rparr>
   \<and> keyedLoading (cmd_subjects borrow) = Inr [minimalEvent ''[inventory|Registered]'' ''/b/1'' 3]
   \<and> foldl (foldStep keyed ''inventory'') (Inr (Some 30))
        [minimalEvent ''Borrowed'' ''/b/1'' 7, minimalEvent ''[inventory|Borrowed]'' ''/b/2'' 8] =
       Inr (Some 28)
   \<and> map ce_data (snd (materializeAll clock (source keyed)
        [minimalEvent ''Borrowed'' ''/b/1'' (7::nat), minimalEvent ''[inventory|Borrowed]'' ''/b/2'' 8]
        0 0)) = [7, 8]
   \<and> createState (keyed\<lparr>upcastHandler := withoutBorrowed\<rparr>) ''inventory'' (cmd_subjects borrow) =
       createState keyed ''inventory'' (cmd_subjects borrow)
   \<and> handleCommand clock (keyed\<lparr>upcastHandler := withoutBorrowed\<rparr>) borrow =
       handleCommand clock keyed borrow"
proof -
  let ?h = "\<lparr>ch_handle = borrowTwo, ch_context = ''inventory'', ch_type = ''borrow''\<rparr>"
  let ?loaded = "minimalEvent ''[inventory|Registered]'' ''/b/1'' (3::nat)"
  let ?new = "[minimalEvent ''Borrowed'' ''/b/1'' (7::nat),
               minimalEvent ''[inventory|Borrowed]'' ''/b/2'' 8]"
  let ?t0 = "[LoadCall ''inventory'' [''/b/1''], UpcastCall ''Registered'' ''inventory'' ?loaded,
       RebuildCall ''[inventory|Registered]'' ''inventory'' 30 None]
       :: (nat, nat, nat) call list"
  have h: "commands keyed (cmd_type borrow) = Some ?h"
    by (simp add: keyed_commands borrow_fields)
  have registered: "upcastHandler keyed (createKey ''inventory'' ''Borrowed'') =
       Some \<lparr>uc_upcast = upcastBorrowed, uc_type = ''Borrowed'', uc_context = ''inventory''\<rparr>"
    by (simp add: keyed_upcastHandler createKey_def)
  have would: "maybeUpcast keyed (minimalEvent ''[inventory|Borrowed]'' ''/b/2'' 8) =
       ([UpcastCall ''Borrowed'' ''inventory'' (minimalEvent ''[inventory|Borrowed]'' ''/b/2'' 8)],
        Inr (minimalEvent ''[inventory|Borrowed]'' ''/b/2'' 80))"
    by (simp add: keyed_upcastHandler maybeUpcast_def minimalEvent_def upcastBorrowed_def)
  have same_table: "keyed\<lparr>upcastHandler := upcastHandler keyed\<rparr> = keyed"
    by simp
  have "createState (keyed\<lparr>upcastHandler := upcastHandler keyed\<rparr>) ''inventory''
      (cmd_subjects borrow) =
      ([LoadCall ''inventory'' (cmd_subjects borrow),
        UpcastCall ''Registered'' ''inventory'' ?loaded,
        RebuildCall ''[inventory|Registered]'' ''inventory'' 30 None], Inr (Some 30))"
    by (rule keyed_createState) (simp add: keyed_upcastHandler)
  then have r1: "createState keyed (ch_context ?h) (cmd_subjects borrow) = (?t0, Inr (Some 30))"
    unfolding same_table by (simp add: borrow_fields)
  have r2: "createState (keyed\<lparr>upcastHandler := withoutBorrowed\<rparr>) (ch_context ?h)
      (cmd_subjects borrow) = (?t0, Inr (Some 30))"
    using keyed_createState [of withoutBorrowed "cmd_subjects borrow"]
    by (simp add: withoutBorrowed_table borrow_fields)
  have same: "createState (keyed\<lparr>upcastHandler := withoutBorrowed\<rparr>) (ch_context ?h)
      (cmd_subjects borrow) = createState keyed (ch_context ?h) (cmd_subjects borrow)"
    by (simp only: r1 r2)
  have h3: "ch_handle ?h (cmd_data borrow) (Some 30) = Inr ?new"
    by (simp add: borrow_fields borrowTwo_def)
  have loader: "stateLoader keyed ''inventory'' =
       Some \<lparr>sl_load = keyedLoading, sl_context = ''inventory''\<rparr>
     \<and> keyedLoading (cmd_subjects borrow) = Inr [?loaded]"
    by (simp add: keyed_stateLoader keyedLoading_def)
  have ex: "executeEvents keyed (ch_context ?h) ?new (Some 30) =
     ([RebuildCall ''Borrowed'' ''inventory'' 7 (Some 30),
       RebuildCall ''[inventory|Borrowed]'' ''inventory'' 8 (Some 29)], Inr (Some 28))"
    unfolding CommandHandler.simps by (rule keyed_executeEvents)
  have ma: "materializeAll clock (source keyed) ?new 0 0 =
     ([RandomUUID, NewDate, RandomUUID, NewDate], [borrowedFirst, borrowedSecond])"
    unfolding keyed_source by (rule keyed_materializeAll)
  note inst = upcast_only_on_replay [OF h, of clock "''Registered''" "''inventory''" ?loaded
      ?t0 "Some 30" ?new withoutBorrowed]
  have new: "handleCommand clock keyed borrow =
       andThen (?t0 @ [HandleCall (ch_type ?h) (ch_context ?h) (cmd_data borrow) (Some 30)],
                Inr ()) (\<lambda>u.
       andThen (executeEvents keyed (ch_context ?h) ?new (Some 30)) (\<lambda>state'.
       andThen (map RuntimeCall (fst (materializeAll clock (source keyed) ?new 0 0)),
                Inr ()) (\<lambda>u.
       andThen (notifyAll keyed (snd (materializeAll clock (source keyed) ?new 0 0)) state')
         (\<lambda>u. ([], Inr state')))))"
    and fold: "snd (executeEvents keyed (ch_context ?h) ?new (Some 30)) =
       foldl (foldStep keyed (ch_context ?h)) (Inr (Some 30)) ?new"
    and kept: "map ce_data (snd (materializeAll clock (source keyed) ?new 0 0)) = map ce_data ?new"
    using inst r1 h3 by blast+
  have run: "handleCommand clock keyed borrow =
       (?t0 @ [HandleCall ''borrow'' ''inventory'' 7 (Some 30),
         RebuildCall ''Borrowed'' ''inventory'' 7 (Some 30),
         RebuildCall ''[inventory|Borrowed]'' ''inventory'' 8 (Some 29),
         RuntimeCall RandomUUID, RuntimeCall NewDate, RuntimeCall RandomUUID, RuntimeCall NewDate,
         NotifyCall ''Borrowed'' 0 borrowedFirst (Some 28),
         NotifyCall ''[inventory|Borrowed]'' 0 borrowedSecond (Some 28)],
        Inr (Some 28))"
    unfolding new ex ma
    by (simp add: andThen_value keyed_notifyAll borrow_fields del: notifyAll.simps)
  have folded: "foldl (foldStep keyed ''inventory'') (Inr (Some 30)) ?new = Inr (Some 28)"
    using fold unfolding ex by simp
  have data: "map ce_data (snd (materializeAll clock (source keyed) ?new 0 0)) = [7, 8]"
    using kept by (simp add: minimalEvent_def del: materializeAll.simps)
  have calls: "filter isUpcastCall (fst (handleCommand clock keyed borrow)) =
      [UpcastCall ''Registered'' ''inventory'' ?loaded]"
    using inst r1 by simp
  have "UpcastCall ''Registered'' ''inventory'' ?loaded
      \<in> set (filter isUpcastCall (fst (handleCommand clock keyed borrow)))"
    unfolding calls by simp
  then have called: "UpcastCall ''Registered'' ''inventory'' ?loaded
      \<in> set (fst (handleCommand clock keyed borrow))"
    by simp
  have unchanged: "handleCommand clock (keyed\<lparr>upcastHandler := withoutBorrowed\<rparr>) borrow =
       handleCommand clock keyed borrow"
    using inst same by blast
  have r1': "createState keyed ''inventory'' (cmd_subjects borrow) = (?t0, Inr (Some 30))"
    using r1 by simp
  have h3': "borrowTwo (cmd_data borrow) (Some 30) = Inr ?new"
    using h3 by simp
  have same': "createState (keyed\<lparr>upcastHandler := withoutBorrowed\<rparr>) ''inventory''
      (cmd_subjects borrow) = createState keyed ''inventory'' (cmd_subjects borrow)"
    using same by simp
  have loader1: "stateLoader keyed ''inventory'' =
       Some \<lparr>sl_load = keyedLoading, sl_context = ''inventory''\<rparr>"
    and loader2: "keyedLoading (cmd_subjects borrow) = Inr [?loaded]"
    using loader by simp_all
  have run': "handleCommand clock keyed borrow =
       ([LoadCall ''inventory'' [''/b/1''],
         UpcastCall ''Registered'' ''inventory'' ?loaded,
         RebuildCall ''[inventory|Registered]'' ''inventory'' 30 None,
         HandleCall ''borrow'' ''inventory'' 7 (Some 30),
         RebuildCall ''Borrowed'' ''inventory'' 7 (Some 30),
         RebuildCall ''[inventory|Borrowed]'' ''inventory'' 8 (Some 29),
         RuntimeCall RandomUUID, RuntimeCall NewDate, RuntimeCall RandomUUID, RuntimeCall NewDate,
         NotifyCall ''Borrowed'' 0 borrowedFirst (Some 28),
         NotifyCall ''[inventory|Borrowed]'' 0 borrowedSecond (Some 28)],
        Inr (Some 28))"
    using run by simp
  show ?thesis
    by (intro conjI) (fact h registered r1' h3' would run' calls called loader1 loader2 folded
        data same' unchanged)+
qed

section \<open>What a dispatch returns\<close>

text \<open>
  Claim C2, as amended. When the command's type has a handler, state reconstruction
  yields a state, the handler returns events without throwing, folding them in order
  through the rebuilders of the handler's context yields a state, and no event handler
  called for a materialized event throws, \<open>handleCommand\<close> returns that final folded
  state.
\<close>

theorem handleCommand_returns_final_state:
  assumes "commands reg (cmd_type command) = Some h"
    and "createState reg (ch_context h) (cmd_subjects command) = (t0, Inr state)"
    and "ch_handle h (cmd_data command) state = Inr newEvents"
    and "executeEvents reg (ch_context h) newEvents state = (t1, Inr state')"
    and "\<forall>cloudEvent \<in> set (snd (materializeAll rt (source reg) newEvents 0 0)).
           \<forall>eh \<in> set (handlersFor reg (ce_type cloudEvent)).
             eh_eventHandler eh cloudEvent state' = Inr ()"
  shows "snd (handleCommand rt reg command) = Inr state'"
proof -
  obtain t2 cloudEvents where m: "materializeAll rt (source reg) newEvents 0 0 = (t2, cloudEvents)"
    by (cases "materializeAll rt (source reg) newEvents 0 0")
  have n: "notifyAll reg cloudEvents state' = (notifications reg cloudEvents state', Inr ())"
    using assms(5) m by (intro notifyAll_returns) simp
  show ?thesis
    using handleCommand_run [OF assms(1-4) m n] by simp
qed

theorem handleCommand_returns_final_state_witness:
  "commands (library 3 save project) (cmd_type borrow) =
     Some \<lparr>ch_handle = borrowBook, ch_context = ''inventory'', ch_type = ''borrow''\<rparr>
   \<and> createState (library 3 save project) ''inventory'' (cmd_subjects borrow) =
       ([LoadCall ''inventory'' [''/b/1''], RebuildCall ''Registered'' ''inventory'' 3 None],
        Inr (Some 3))
   \<and> borrowBook (cmd_data borrow) (Some 3) = Inr [minimalEvent ''Borrowed'' ''/b/1'' 7]
   \<and> fst (executeEvents (library 3 save project) ''inventory''
        [minimalEvent ''Borrowed'' ''/b/1'' 7] (Some 3)) =
       [RebuildCall ''Borrowed'' ''inventory'' 7 (Some 3)]
   \<and> snd (executeEvents (library 3 save project) ''inventory''
        [minimalEvent ''Borrowed'' ''/b/1'' 7] (Some 3)) = Inr (Some 2)
   \<and> snd (materializeAll clock (source (library 3 save project))
        [minimalEvent ''Borrowed'' ''/b/1'' 7] 0 0) = [borrowed]
   \<and> save borrowed (Some 2) = Inr () \<and> project borrowed (Some 2) = Inr ()
   \<and> snd (handleCommand clock (library 3 save project) borrow) = Inr (Some 2)"
proof -
  let ?reg = "library 3 save project"
  let ?h = "\<lparr>ch_handle = borrowBook, ch_context = ''inventory'', ch_type = ''borrow''\<rparr>"
  have three: "(3::nat) = Suc 2" by simp
  have h1: "commands ?reg (cmd_type borrow) = Some ?h"
    by (simp add: borrow_fields library_commands)
  have h2: "createState ?reg (ch_context ?h) (cmd_subjects borrow) =
      ([LoadCall ''inventory'' [''/b/1''], RebuildCall ''Registered'' ''inventory'' 3 None],
       Inr (Some 3))"
    by (simp add: borrow_fields library_createState)
  have h3: "ch_handle ?h (cmd_data borrow) (Some 3) = Inr [minimalEvent ''Borrowed'' ''/b/1'' 7]"
    by (simp add: borrow_fields borrowBook_def)
  have h4: "executeEvents ?reg (ch_context ?h) [minimalEvent ''Borrowed'' ''/b/1'' 7] (Some 3) =
      ([RebuildCall ''Borrowed'' ''inventory'' 7 (Some 3)], Inr (Some 2))"
    unfolding three CommandHandler.simps by (rule library_executeEvents)
  have m: "materializeAll clock (source ?reg) [minimalEvent ''Borrowed'' ''/b/1'' 7] 0 0 =
      ([RandomUUID, NewDate], [borrowed])"
    unfolding library_source by (rule clock_materializeAll)
  have h5: "\<forall>cloudEvent \<in> set (snd (materializeAll clock (source ?reg)
                [minimalEvent ''Borrowed'' ''/b/1'' 7] 0 0)).
           \<forall>eh \<in> set (handlersFor ?reg (ce_type cloudEvent)).
             eh_eventHandler eh cloudEvent (Some 2) = Inr ()"
    unfolding m by (auto simp: library_handlersFor save_def project_def)
  have e1: "fst (executeEvents ?reg ''inventory'' [minimalEvent ''Borrowed'' ''/b/1'' 7] (Some 3)) =
      [RebuildCall ''Borrowed'' ''inventory'' 7 (Some 3)]"
    and e2: "snd (executeEvents ?reg ''inventory'' [minimalEvent ''Borrowed'' ''/b/1'' 7] (Some 3)) =
      Inr (Some 2)"
    using h4 by (simp_all del: executeEvents.simps)
  have m2: "snd (materializeAll clock (source ?reg) [minimalEvent ''Borrowed'' ''/b/1'' 7] 0 0) =
      [borrowed]"
    unfolding m by simp
  have c1: "commands ?reg (cmd_type borrow) = Some ?h
      \<and> createState ?reg ''inventory'' (cmd_subjects borrow) =
       ([LoadCall ''inventory'' [''/b/1''], RebuildCall ''Registered'' ''inventory'' 3 None],
        Inr (Some 3))
      \<and> borrowBook (cmd_data borrow) (Some 3) = Inr [minimalEvent ''Borrowed'' ''/b/1'' 7]"
    using h1 h2 h3 by simp
  have c2: "save borrowed (Some 2) = Inr () \<and> project borrowed (Some 2) = Inr ()"
    by (simp add: save_def project_def)
  from handleCommand_returns_final_state [OF h1 h2 h3 h4 h5] c1 e1 e2 m2 c2
  show ?thesis by blast
qed

text \<open>
  Claim C2 as stated fails: with three copies on record the handler of \<open>borrow\<close> returns
  one event without throwing and the final folded state is 2, yet the first event
  handler throws and the dispatch ends with that exception instead of returning 2.
\<close>

theorem handleCommand_event_handler_throws:
  "commands (library 3 failingSave project) (cmd_type borrow) =
     Some \<lparr>ch_handle = borrowBook, ch_context = ''inventory'', ch_type = ''borrow''\<rparr>
   \<and> snd (createState (library 3 failingSave project) ''inventory'' (cmd_subjects borrow)) =
       Inr (Some 3)
   \<and> borrowBook (cmd_data borrow) (Some 3) = Inr [minimalEvent ''Borrowed'' ''/b/1'' 7]
   \<and> snd (executeEvents (library 3 failingSave project) ''inventory''
        [minimalEvent ''Borrowed'' ''/b/1'' 7] (Some 3)) = Inr (Some 2)
   \<and> snd (handleCommand clock (library 3 failingSave project) borrow) = Inl ''disk full''
   \<and> snd (handleCommand clock (library 3 failingSave project) borrow) \<noteq> Inr (Some 2)"
proof -
  let ?reg = "library 3 failingSave project"
  have three: "(3::nat) = Suc 2" by simp
  have e: "executeEvents ?reg ''inventory'' [minimalEvent ''Borrowed'' ''/b/1'' 7] (Some 3) =
      ([RebuildCall ''Borrowed'' ''inventory'' 7 (Some 3)], Inr (Some 2))"
    unfolding three by (rule library_executeEvents)
  have e2: "snd (executeEvents ?reg ''inventory'' [minimalEvent ''Borrowed'' ''/b/1'' 7] (Some 3)) =
      Inr (Some 2)"
    unfolding e by simp
  have c: "commands ?reg (cmd_type borrow) =
        Some \<lparr>ch_handle = borrowBook, ch_context = ''inventory'', ch_type = ''borrow''\<rparr>
      \<and> snd (createState ?reg ''inventory'' (cmd_subjects borrow)) = Inr (Some 3)
      \<and> borrowBook (cmd_data borrow) (Some 3) = Inr [minimalEvent ''Borrowed'' ''/b/1'' 7]"
    by (simp add: borrow_fields library_commands library_createState borrowBook_def)
  have r: "snd (handleCommand clock ?reg borrow) = Inl ''disk full''"
    by (simp add: library_failingSave_run)
  show ?thesis using c e2 r by simp
qed

section \<open>A command handler that throws\<close>

text \<open>
  Claim C4. When the registered handler of a command throws, \<open>handleCommand\<close> ends with
  that very exception; the run is the calls of state reconstruction followed by the
  call of the handler and nothing else, so no identifier or timestamp is drawn for an
  event and no event handler is called.
\<close>

theorem handleCommand_handler_throws:
  assumes "commands reg (cmd_type command) = Some h"
    and "createState reg (ch_context h) (cmd_subjects command) = (t0, Inr state)"
    and "ch_handle h (cmd_data command) state = Inl x"
  shows "handleCommand rt reg command =
           (t0 @ [HandleCall (ch_type h) (ch_context h) (cmd_data command) state], Inl x)
         \<and> filter emissionCall (fst (handleCommand rt reg command)) = []"
proof -
  have run: "handleCommand rt reg command =
      (t0 @ [HandleCall (ch_type h) (ch_context h) (cmd_data command) state], Inl x)"
    using assms by (rule handleCommand_throws)
  have "\<not> emissionCall c" if "c \<in> set t0" for c
    using that createState_calls [of c reg "ch_context h" "cmd_subjects command"] assms(2)
    by (auto dest: replayCall_no_emission)
  then have "filter emissionCall t0 = []"
    by (simp add: filter_empty_conv)
  with run show ?thesis by simp
qed

theorem handleCommand_handler_throws_witness:
  "commands (library 0 save project) (cmd_type borrow) =
     Some \<lparr>ch_handle = borrowBook, ch_context = ''inventory'', ch_type = ''borrow''\<rparr>
   \<and> createState (library 0 save project) ''inventory'' (cmd_subjects borrow) =
       ([LoadCall ''inventory'' [''/b/1''], RebuildCall ''Registered'' ''inventory'' 0 None],
        Inr (Some 0))
   \<and> borrowBook (cmd_data borrow) (Some 0) = Inl ''No copy available anymore''
   \<and> handleCommand clock (library 0 save project) borrow =
       ([LoadCall ''inventory'' [''/b/1''], RebuildCall ''Registered'' ''inventory'' 0 None,
         HandleCall ''borrow'' ''inventory'' 7 (Some 0)],
        Inl ''No copy available anymore'')
   \<and> filter emissionCall (fst (handleCommand clock (library 0 save project) borrow)) = []"
proof -
  let ?reg = "library 0 save project"
  let ?h = "\<lparr>ch_handle = borrowBook, ch_context = ''inventory'', ch_type = ''borrow''\<rparr>"
  have h1: "commands ?reg (cmd_type borrow) = Some ?h"
    by (simp add: borrow_fields library_commands)
  have h2: "createState ?reg (ch_context ?h) (cmd_subjects borrow) =
      ([LoadCall ''inventory'' [''/b/1''], RebuildCall ''Registered'' ''inventory'' 0 None],
       Inr (Some 0))"
    by (simp add: borrow_fields library_createState)
  have h3: "ch_handle ?h (cmd_data borrow) (Some 0) = Inl ''No copy available anymore''"
    by (simp add: borrow_fields borrowBook_def)
  from handleCommand_handler_throws [OF h1 h2 h3, of clock] h1 h2 h3
  show ?thesis by (simp add: borrow_fields)
qed

section \<open>Context isolation\<close>

text \<open>
  Claim C6. For distinct contexts A and B and any event type X, a replay under B,
  by \<open>createState\<close> or by a dispatch whose handler is registered under B, never calls
  a rebuilder registered for (A, X), whatever the type of the replayed event.
\<close>

theorem rebuilder_context_isolation:
  assumes "contextA \<noteq> contextB"
  shows "RebuildCall X contextA d s \<notin> set (fst (createState reg contextB subjects))
     \<and> (commands reg (cmd_type command) = Some h \<and> ch_context h = contextB \<longrightarrow>
          RebuildCall X contextA d s \<notin> set (fst (handleCommand rt reg command)))"
proof (intro conjI impI)
  show replay: "RebuildCall X contextA d s \<notin> set (fst (createState reg contextB subjects))"
    for subjects
    using assms createState_calls [of "RebuildCall X contextA d s" reg contextB subjects]
    by auto
  assume h: "commands reg (cmd_type command) = Some h \<and> ch_context h = contextB"
  then obtain rest where
    "fst (handleCommand rt reg command) = fst (createState reg contextB (cmd_subjects command)) @ rest"
    and "list_all (\<lambda>c. dispatchCall c contextB) rest"
    using handleCommand_calls [of reg command h rt] by auto
  then show "RebuildCall X contextA d s \<notin> set (fst (handleCommand rt reg command))"
    using replay [of "cmd_subjects command"] assms
    by (auto simp: list_all_iff dest: dispatchCall_context)
qed

theorem rebuilder_context_isolation_witness:
  "''catalog'' \<noteq> ''inventory''
   \<and> stateRebuilder (library 3 save project) (createKey ''catalog'' ''Registered'') =
       Some \<lparr>sr_stateRebuilder = onCataloged, sr_context = ''catalog'', sr_type = ''Registered''\<rparr>
   \<and> RebuildCall ''Registered'' ''catalog'' 3 None
       \<notin> set (fst (createState (library 3 save project) ''inventory'' [''/b/1'']))
   \<and> commands (library 3 save project) (cmd_type borrow) =
       Some \<lparr>ch_handle = borrowBook, ch_context = ''inventory'', ch_type = ''borrow''\<rparr>
   \<and> RebuildCall ''Registered'' ''catalog'' 3 None
       \<notin> set (fst (handleCommand clock (library 3 save project) borrow))"
proof -
  let ?reg = "library 3 save project"
  let ?h = "\<lparr>ch_handle = borrowBook, ch_context = ''inventory'', ch_type = ''borrow''\<rparr>"
  have h0: "''catalog'' \<noteq> ''inventory''" by simp
  have h1: "commands ?reg (cmd_type borrow) = Some ?h \<and> ch_context ?h = ''inventory''"
    by (simp add: borrow_fields library_commands)
  have registered: "stateRebuilder ?reg (createKey ''catalog'' ''Registered'') =
       Some \<lparr>sr_stateRebuilder = onCataloged, sr_context = ''catalog'', sr_type = ''Registered''\<rparr>"
    by (simp add: library_def registration_defs)
  from rebuilder_context_isolation [OF h0, of "''Registered''" 3 None ?reg "[''/b/1'']" borrow ?h
      clock] h1 registered
  show ?thesis by simp
qed

section \<open>Materialized events\<close>

text \<open>
  Claim C7, as amended. The \<open>i\<close>-th materialized event of a dispatch carries type,
  subject, data and the other attributes of the \<open>i\<close>-th event the handler produced
  unchanged, has \<^verbatim>\<open>specversion\<close> 1.0, has the handler's \<^verbatim>\<open>source\<close>, \<^verbatim>\<open>id\<close> and \<^verbatim>\<open>time\<close>
  where the handler supplied them, and otherwise the source last set by \<open>setSource\<close>,
  the next UUID drawn from the runtime and the next reading of the clock. The id is
  non-empty whenever the handler supplied none or a non-empty one (UUIDs being
  non-empty); ids drawn for two events of one dispatch differ (UUIDs being distinct).
  Here \<open>cloudEvents\<close> is the list \<open>handleCommand\<close> hands to the event handlers.
\<close>

theorem materialized_event_fields:
  assumes "i < length newEvents"
  shows "let event = newEvents ! i;
             cloudEvents = snd (materializeAll rt (source (setSource src reg)) newEvents 0 0);
             cloudEvent = cloudEvents ! i
         in ce_id cloudEvent =
              Some (case ce_id event of Some v \<Rightarrow> v
                    | None \<Rightarrow> randomUUID rt (draws ce_id (take i newEvents)))
          \<and> ce_source cloudEvent = Some (case ce_source event of Some v \<Rightarrow> v | None \<Rightarrow> src)
          \<and> ce_time cloudEvent =
              Some (case ce_time event of Some v \<Rightarrow> v
                    | None \<Rightarrow> toISOString rt (draws ce_time (take i newEvents)))
          \<and> ce_specversion cloudEvent = Some ''1.0''
          \<and> ce_type cloudEvent = ce_type event
          \<and> ce_subject cloudEvent = ce_subject event
          \<and> ce_data cloudEvent = ce_data event
          \<and> ce_datacontenttype cloudEvent = ce_datacontenttype event
          \<and> ce_dataschema cloudEvent = ce_dataschema event
          \<and> ce_extensions cloudEvent = ce_extensions event
          \<and> ((\<forall>k. randomUUID rt k \<noteq> []) \<and> ce_id event \<noteq> Some [] \<longrightarrow> ce_id cloudEvent \<noteq> Some [])
          \<and> (inj (randomUUID rt) \<and> j < i \<and> ce_id (newEvents ! j) = None \<and> ce_id event = None
               \<longrightarrow> ce_id (cloudEvents ! j) \<noteq> ce_id cloudEvent)"
proof -
  let ?ces = "snd (materializeAll rt (source (setSource src reg)) newEvents 0 0)"
  have src: "source (setSource src reg) = src"
    by (simp add: setSource_def)
  have nth: "?ces ! k = fst (snd (materialize rt src (newEvents ! k)
         (draws ce_id (take k newEvents)) (draws ce_time (take k newEvents))))"
    if "k < length newEvents" for k
    using materializeAll_nth [OF that, of rt src 0 0] by (simp add: src)
  have unique: "ce_id (?ces ! j) \<noteq> ce_id (?ces ! i)"
    if "inj (randomUUID rt)" "j < i" "ce_id (newEvents ! j) = None" "ce_id (newEvents ! i) = None"
  proof -
    have "draws ce_id (take j newEvents) \<noteq> draws ce_id (take i newEvents)"
      using draws_take_less [of j i newEvents ce_id] that(2,3) assms by simp
    then have "randomUUID rt (draws ce_id (take j newEvents)) \<noteq>
        randomUUID rt (draws ce_id (take i newEvents))"
      using that(1) by (simp add: inj_eq)
    moreover have "j < length newEvents" using that(2) assms by simp
    ultimately show ?thesis
      using that(3,4) by (simp add: nth assms materialize_fields)
  qed
  have fields: "?ces ! i =
      (newEvents ! i)\<lparr>ce_source := Some (case ce_source (newEvents ! i) of Some s \<Rightarrow> s | None \<Rightarrow> src),
        ce_id := Some (case ce_id (newEvents ! i) of Some v \<Rightarrow> v
                       | None \<Rightarrow> randomUUID rt (draws ce_id (take i newEvents))),
        ce_time := Some (case ce_time (newEvents ! i) of Some v \<Rightarrow> v
                         | None \<Rightarrow> toISOString rt (draws ce_time (take i newEvents))),
        ce_specversion := Some ''1.0''\<rparr>"
    by (simp only: nth [OF assms] materialize_fields)
  have nonempty: "ce_id (?ces ! i) \<noteq> Some []"
    if "\<forall>k. randomUUID rt k \<noteq> []" "ce_id (newEvents ! i) \<noteq> Some []"
    using that by (cases "ce_id (newEvents ! i)") (simp_all add: fields)
  show ?thesis
    unfolding Let_def
    using unique nonempty by (simp add: fields)
qed

theorem materialized_event_fields_witness:
  "(1::nat) < length [minimalEvent ''t'' ''/s/1'' (1::nat), minimalEvent ''t'' ''/s/2'' 2]
   \<and> (\<forall>k. randomUUID clock k \<noteq> [])
   \<and> inj (randomUUID clock)
   \<and> ce_id (snd (materializeAll clock (source (setSource ''https://library.evcojs.org''
         (initial :: (nat, nat, nat, string) registry)))
         [minimalEvent ''t'' ''/s/1'' (1::nat), minimalEvent ''t'' ''/s/2'' 2] 0 0) ! 0) = Some ''u''
   \<and> snd (materializeAll clock (source (setSource ''https://library.evcojs.org''
         (initial :: (nat, nat, nat, string) registry)))
         [minimalEvent ''t'' ''/s/1'' (1::nat), minimalEvent ''t'' ''/s/2'' 2] 0 0) ! 1 =
       \<lparr>ce_id = Some ''uu'', ce_source = Some ''https://library.evcojs.org'', ce_type = ''t'',
        ce_specversion = Some ''1.0'', ce_datacontenttype = None, ce_dataschema = None,
        ce_subject = ''/s/2'', ce_time = Some ''2026-01-01T00:00:000Z'', ce_data = 2,
        ce_extensions = []\<rparr>"
proof -
  let ?events = "[minimalEvent ''t'' ''/s/1'' (1::nat), minimalEvent ''t'' ''/s/2'' 2]"
  have h: "(1::nat) < length ?events" by simp
  have u: "\<forall>k. randomUUID clock k \<noteq> []" by (simp add: clock_def)
  have i: "inj (randomUUID clock)" by (simp add: clock_def inj_on_def)
  from materialized_event_fields [OF h, of clock "''https://library.evcojs.org''"
      "initial :: (nat, nat, nat, string) registry" 0] h u i
  show ?thesis
    by (simp add: Let_def materialize_def minimalEvent_def clock_def setSource_def)
qed

text \<open>
  Claim C7 as stated fails: \<^verbatim>\<open>event.id ?? randomUUID()\<close> keeps an id the handler supplied,
  the empty string included. The handler of \<open>tag\<close> returns an event with \<^verbatim>\<open>id: ""\<close>, and
  the event handed to the event handler has the empty id; no UUID is drawn.
\<close>

theorem materialized_id_empty:
  "commands tagging (cmd_type tag) =
     Some \<lparr>ch_handle = tagHandler, ch_context = ''c'', ch_type = ''tag''\<rparr>
   \<and> tagHandler (cmd_data tag) None = Inr [(minimalEvent ''t'' ''/s/1'' 7)\<lparr>ce_id := Some ''''\<rparr>]
   \<and> handleCommand clock tagging tag =
       ([HandleCall ''tag'' ''c'' 7 None, RuntimeCall NewDate,
         NotifyCall ''t'' 0
           \<lparr>ce_id = Some '''', ce_source = Some ''CQRS_DEFAULTSOURCE'', ce_type = ''t'',
            ce_specversion = Some ''1.0'', ce_datacontenttype = None, ce_dataschema = None,
            ce_subject = ''/s/1'', ce_time = Some ''2026-01-01T00:00:00Z'', ce_data = 7,
            ce_extensions = []\<rparr> None],
        Inr None)"
  by (simp add: tagging_def tag_def tagHandler_def registerEventhandler_def
        registerCommandHandler_def initial_def Let_def handleCommand_def createState_def
        andThen_value andThen_throw materialize_def minimalEvent_def clock_def save_def
        executeEvent_def createKey_def)

section \<open>The fan-out to event handlers\<close>

text \<open>
  Claim C8, as amended. Provided no event handler called in the dispatch throws, the
  run of a dispatch ends, after the last rebuilder call and the materialization, with
  exactly the calls \<open>notifications\<close> lists: for each materialized event in order, each
  event handler stored for its type once, in list order, with that materialized event
  and the final folded state. List order is registration order: \<open>registerEventhandler\<close>
  appends to the list of the type.
\<close>

theorem event_handlers_fan_out:
  assumes "commands reg (cmd_type command) = Some h"
    and "createState reg (ch_context h) (cmd_subjects command) = (t0, Inr state)"
    and "ch_handle h (cmd_data command) state = Inr newEvents"
    and "executeEvents reg (ch_context h) newEvents state = (t1, Inr state')"
    and "\<forall>cloudEvent \<in> set (snd (materializeAll rt (source reg) newEvents 0 0)).
           \<forall>eh \<in> set (handlersFor reg (ce_type cloudEvent)).
             eh_eventHandler eh cloudEvent state' = Inr ()"
  shows "fst (handleCommand rt reg command) =
           t0 @ [HandleCall (ch_type h) (ch_context h) (cmd_data command) state] @ t1
           @ map RuntimeCall (fst (materializeAll rt (source reg) newEvents 0 0))
           @ notifications reg (snd (materializeAll rt (source reg) newEvents 0 0)) state'
     \<and> handlersFor (registerEventhandler type func reg) type =
           handlersFor reg type @ [\<lparr>eh_eventHandler = func, eh_type = type\<rparr>]"
proof -
  obtain t2 cloudEvents where m: "materializeAll rt (source reg) newEvents 0 0 = (t2, cloudEvents)"
    by (cases "materializeAll rt (source reg) newEvents 0 0")
  have n: "notifyAll reg cloudEvents state' = (notifications reg cloudEvents state', Inr ())"
    using assms(5) m by (intro notifyAll_returns) simp
  show ?thesis
    using handleCommand_run [OF assms(1-4) m n] m
    by (simp add: registerEventhandler_appends)
qed

theorem event_handlers_fan_out_witness:
  "commands (library 3 save project) (cmd_type borrow) =
     Some \<lparr>ch_handle = borrowBook, ch_context = ''inventory'', ch_type = ''borrow''\<rparr>
   \<and> handlersFor (library 3 save project) ''Borrowed'' =
       [\<lparr>eh_eventHandler = save, eh_type = ''Borrowed''\<rparr>,
        \<lparr>eh_eventHandler = project, eh_type = ''Borrowed''\<rparr>]
   \<and> save borrowed (Some 2) = Inr () \<and> project borrowed (Some 2) = Inr ()
   \<and> fst (handleCommand clock (library 3 save project) borrow) =
       [LoadCall ''inventory'' [''/b/1''], RebuildCall ''Registered'' ''inventory'' 3 None,
        HandleCall ''borrow'' ''inventory'' 7 (Some 3),
        RebuildCall ''Borrowed'' ''inventory'' 7 (Some 3),
        RuntimeCall RandomUUID, RuntimeCall NewDate,
        NotifyCall ''Borrowed'' 0 borrowed (Some 2), NotifyCall ''Borrowed'' 1 borrowed (Some 2)]
   \<and> handlersFor (registerEventhandler ''Borrowed'' failingSave (library 3 save project))
        ''Borrowed'' =
       [\<lparr>eh_eventHandler = save, eh_type = ''Borrowed''\<rparr>,
        \<lparr>eh_eventHandler = project, eh_type = ''Borrowed''\<rparr>,
        \<lparr>eh_eventHandler = failingSave, eh_type = ''Borrowed''\<rparr>]"
proof -
  let ?reg = "library 3 save project"
  let ?h = "\<lparr>ch_handle = borrowBook, ch_context = ''inventory'', ch_type = ''borrow''\<rparr>"
  have three: "(3::nat) = Suc 2" by simp
  have h1: "commands ?reg (cmd_type borrow) = Some ?h"
    by (simp add: borrow_fields library_commands)
  have h2: "createState ?reg (ch_context ?h) (cmd_subjects borrow) =
      ([LoadCall ''inventory'' [''/b/1''], RebuildCall ''Registered'' ''inventory'' 3 None],
       Inr (Some 3))"
    by (simp add: borrow_fields library_createState)
  have h3: "ch_handle ?h (cmd_data borrow) (Some 3) = Inr [minimalEvent ''Borrowed'' ''/b/1'' 7]"
    by (simp add: borrow_fields borrowBook_def)
  have h4: "executeEvents ?reg (ch_context ?h) [minimalEvent ''Borrowed'' ''/b/1'' 7] (Some 3) =
      ([RebuildCall ''Borrowed'' ''inventory'' 7 (Some 3)], Inr (Some 2))"
    unfolding three CommandHandler.simps by (rule library_executeEvents)
  have m: "materializeAll clock (source ?reg) [minimalEvent ''Borrowed'' ''/b/1'' 7] 0 0 =
      ([RandomUUID, NewDate], [borrowed])"
    unfolding library_source by (rule clock_materializeAll)
  have h5: "\<forall>cloudEvent \<in> set (snd (materializeAll clock (source ?reg)
                [minimalEvent ''Borrowed'' ''/b/1'' 7] 0 0)).
           \<forall>eh \<in> set (handlersFor ?reg (ce_type cloudEvent)).
             eh_eventHandler eh cloudEvent (Some 2) = Inr ()"
    unfolding m by (auto simp: library_handlersFor save_def project_def)
  have n: "notifications ?reg [borrowed] (Some 2) =
      [NotifyCall ''Borrowed'' 0 borrowed (Some 2), NotifyCall ''Borrowed'' 1 borrowed (Some 2)]"
    by (simp add: notifications_def library_handlersFor borrowed_def enumerate_eq_zip upt_rec)
  have hs: "handlersFor ?reg ''Borrowed'' =
       [\<lparr>eh_eventHandler = save, eh_type = ''Borrowed''\<rparr>,
        \<lparr>eh_eventHandler = project, eh_type = ''Borrowed''\<rparr>]"
    by (simp add: library_handlersFor)
  have ok: "save borrowed (Some 2) = Inr () \<and> project borrowed (Some 2) = Inr ()"
    by (simp add: save_def project_def)
  from event_handlers_fan_out [OF h1 h2 h3 h4 h5, of "''Borrowed''" failingSave]
  show ?thesis
    unfolding m using h1 hs ok by (simp add: n borrow_fields)
qed

text \<open>
  Claim C8 as stated fails: two event handlers are registered for \<open>Borrowed\<close>, the event
  is materialized, the first handler throws, and the second is never called.
\<close>

theorem event_handler_skipped:
  "handlersFor (library 3 failingSave project) ''Borrowed'' =
     [\<lparr>eh_eventHandler = failingSave, eh_type = ''Borrowed''\<rparr>,
      \<lparr>eh_eventHandler = project, eh_type = ''Borrowed''\<rparr>]
   \<and> fst (handleCommand clock (library 3 failingSave project) borrow) =
       [LoadCall ''inventory'' [''/b/1''], RebuildCall ''Registered'' ''inventory'' 3 None,
        HandleCall ''borrow'' ''inventory'' 7 (Some 3),
        RebuildCall ''Borrowed'' ''inventory'' 7 (Some 3),
        RuntimeCall RandomUUID, RuntimeCall NewDate,
        NotifyCall ''Borrowed'' 0 borrowed (Some 2)]
   \<and> NotifyCall ''Borrowed'' 1 borrowed (Some 2)
       \<notin> set (fst (handleCommand clock (library 3 failingSave project) borrow))"
  by (simp add: library_handlersFor library_failingSave_run)

end
